theory Spec2Isabelle
  imports Complex_Main
begin

section \<open>Python values and exceptions\<close>

text \<open>
  The arguments of the constructors are dynamically typed in the source
  (\<^verbatim>\<open>isinstance\<close> checks guard them), so they are modelled by a datatype of the
  value kinds that matter: \<^verbatim>\<open>None\<close>, integers, floats and strings.
  Amplitudes are modelled as exact real (complex for the Pauli-Y gate) numbers:
  the rounding of IEEE doubles is not part of this model.
\<close>

datatype pyval = PyNone | PyInt int | PyFloat real | PyStr string

datatype error =
    TypeError | ValueError | IndexError | AttributeError
  | PyException | NotImplementedError

fun isinstance_int :: "pyval \<Rightarrow> bool" where
  "isinstance_int (PyInt _) = True"
| "isinstance_int _ = False"

fun isinstance_int_or_None :: "pyval \<Rightarrow> bool" where
  "isinstance_int_or_None (PyInt _) = True"
| "isinstance_int_or_None PyNone = True"
| "isinstance_int_or_None _ = False"

fun isinstance_str_or_None :: "pyval \<Rightarrow> bool" where
  "isinstance_str_or_None (PyStr _) = True"
| "isinstance_str_or_None PyNone = True"
| "isinstance_str_or_None _ = False"

text \<open>Truthiness, as used by \<^verbatim>\<open>seed if seed else ...\<close> and \<^verbatim>\<open>... if state else ...\<close>.\<close>

fun truthy :: "pyval \<Rightarrow> bool" where
  "truthy PyNone = False"
| "truthy (PyInt i) = (i \<noteq> 0)"
| "truthy (PyFloat x) = (x \<noteq> 0)"
| "truthy (PyStr s) = (s \<noteq> [])"

section \<open>Matrices as lists of rows\<close>

type_synonym 'a mat = "'a list list"

definition nrows :: "'a mat \<Rightarrow> nat" where
  "nrows A = length A"

definition ncols :: "'a mat \<Rightarrow> nat" where
  "ncols A = (case A of [] \<Rightarrow> 0 | r # _ \<Rightarrow> length r)"

text \<open>\<^verbatim>\<open>np.kron\<close> on two-dimensional arrays: block \<open>(i, j)\<close> of the result is
  \<open>A[i][j] * B\<close>.\<close>

definition kron :: "'a::times mat \<Rightarrow> 'a mat \<Rightarrow> 'a mat" where
  "kron A B =
     concat (map (\<lambda>ra. map (\<lambda>rb. concat (map (\<lambda>a. map (\<lambda>b. a * b) rb) ra)) B) A)"

definition dot :: "'a::semiring_0 list \<Rightarrow> 'a list \<Rightarrow> 'a" where
  "dot u v = sum_list (map2 (*) u v)"

definition col :: "'a mat \<Rightarrow> nat \<Rightarrow> 'a list" where
  "col B j = map (\<lambda>r. r ! j) B"

definition mm :: "'a::semiring_0 mat \<Rightarrow> 'a mat \<Rightarrow> 'a mat" where
  "mm A B = map (\<lambda>r. map (\<lambda>j. dot r (col B j)) [0..<ncols B]) A"

text \<open>The operator \<^verbatim>\<open>@\<close>: numpy raises \<^verbatim>\<open>ValueError\<close> when the inner
  dimensions differ.\<close>

definition matmul :: "'a::semiring_0 mat \<Rightarrow> 'a mat \<Rightarrow> error + 'a mat" where
  "matmul A B = (if ncols A = nrows B then Inr (mm A B) else Inl ValueError)"

text \<open>The attribute \<^verbatim>\<open>.T\<close>.\<close>

definition mT :: "'a mat \<Rightarrow> 'a mat" where
  "mT A = map (col A) [0..<ncols A]"

text \<open>Entrywise sum of two arrays of the same shape.\<close>

definition madd :: "'a::plus mat \<Rightarrow> 'a mat \<Rightarrow> 'a mat" where
  "madd A B = map2 (map2 (+)) A B"

definition smult :: "'a::times \<Rightarrow> 'a mat \<Rightarrow> 'a mat" where
  "smult c A = map (map ((*) c)) A"

section \<open>The single-qubit gates\<close>

definition I_gate :: "real mat" where
  "I_gate = [[1, 0], [0, 1]]"

definition X_gate :: "real mat" where
  "X_gate = [[0, 1], [1, 0]]"

definition H_gate :: "real mat" where
  "H_gate = smult (1 / sqrt 2) [[1, 1], [1, - 1]]"

definition Z_gate :: "real mat" where
  "Z_gate = [[1, 0], [0, - 1]]"


section \<open>Tensors and the simulator object\<close>

text \<open>A rank-\<open>n\<close> array is a nesting of \<open>n\<close> axes around scalars.\<close>

datatype 'a tensor = Scalar 'a | Axis "'a tensor list"

datatype st = NoState | MatState "real mat" | TenState "real tensor"

datatype engine = GateSimulator | GateSVSimulator | GateTensorSimulator

record sim =
  sim_class :: engine
  sim_n :: int
  sim_seed :: int
  sim_state :: st

section \<open>Operations of the base class\<close>

text \<open>\<^verbatim>\<open>kronecker_product(*args)\<close>: a left fold of \<^verbatim>\<open>np.kron\<close> from
  \<^verbatim>\<open>[[1]]\<close>.\<close>

definition kronecker_product :: "'a::{times,one} mat list \<Rightarrow> 'a mat" where
  "kronecker_product args = foldl kron [[1]] args"

definition zero_ket :: "real mat" where
  "zero_ket = [[1], [0]]"

definition one_ket :: "real mat" where
  "one_ket = [[0], [1]]"

definition is_bit :: "char \<Rightarrow> bool" where
  "is_bit ch = (ch = CHR ''0'' \<or> ch = CHR ''1'')"

text \<open>\<^verbatim>\<open>initialize_state(bitstring, change=False)\<close>. The first loop rejects a
  character other than \<^verbatim>\<open>'0'\<close> and \<^verbatim>\<open>'1'\<close>; the second loop folds
  \<^verbatim>\<open>np.kron\<close> over the characters; the stored state is rebound only when
  \<^verbatim>\<open>change\<close> is set. The length of the bitstring is not compared with \<open>n\<close>.\<close>

fun initialize_state :: "sim \<Rightarrow> pyval \<Rightarrow> bool \<Rightarrow> (error + real mat) \<times> sim" where
  "initialize_state self (PyStr bitstring) change =
     (if \<not> list_all is_bit bitstring then (Inl PyException, self)
      else
        let state = foldl (\<lambda>state bit. if bit = CHR ''1'' then kron state one_ket
                                        else kron state zero_ket) [[1]] bitstring
        in (Inr state,
            self\<lparr>sim_state := (if change then MatState state else sim_state self)\<rparr>))"
| "initialize_state self _ change = (Inl TypeError, self)"

text \<open>Assignment \<^verbatim>\<open>xs[i] = v\<close> on a Python list: a negative index counts from the
  end, an index out of range raises \<^verbatim>\<open>IndexError\<close>.\<close>

definition py_setitem :: "'a list \<Rightarrow> int \<Rightarrow> 'a \<Rightarrow> error + 'a list" where
  "py_setitem xs i v =
     (let len = int (length xs); j = (if i < 0 then len + i else i)
      in if 0 \<le> j \<and> j < len then Inr (xs[nat j := v]) else Inl IndexError)"

text \<open>\<^verbatim>\<open>CX(control, target)\<close>. Each of the four calls of
  \<^verbatim>\<open>initialize_state\<close> passes the simulator on.\<close>

definition CX :: "sim \<Rightarrow> int \<Rightarrow> int \<Rightarrow> (error + real mat) \<times> sim" where
  "CX self control target =
     (if control \<ge> sim_n self \<or> target \<ge> sim_n self then (Inl PyException, self)
      else if control = target then
        (Inr (kronecker_product (replicate (nat (sim_n self)) I_gate)), self)
      else
        let zero_args = replicate (nat (sim_n self)) I_gate;
            one_args = zero_args
        in case initialize_state self (PyStr ''0'') False of
             (Inl e, self1) \<Rightarrow> (Inl e, self1)
           | (Inr z1, self1) \<Rightarrow>
         (case initialize_state self1 (PyStr ''0'') False of
             (Inl e, self2) \<Rightarrow> (Inl e, self2)
           | (Inr z2, self2) \<Rightarrow>
         (case matmul z1 (mT z2) of
             Inl e \<Rightarrow> (Inl e, self2)
           | Inr P0 \<Rightarrow>
         (case py_setitem zero_args (- 1 - control) P0 of
             Inl e \<Rightarrow> (Inl e, self2)
           | Inr zero_args' \<Rightarrow>
         (case initialize_state self2 (PyStr ''1'') False of
             (Inl e, self3) \<Rightarrow> (Inl e, self3)
           | (Inr o1, self3) \<Rightarrow>
         (case initialize_state self3 (PyStr ''1'') False of
             (Inl e, self4) \<Rightarrow> (Inl e, self4)
           | (Inr o2, self4) \<Rightarrow>
         (case matmul o1 (mT o2) of
             Inl e \<Rightarrow> (Inl e, self4)
           | Inr P1 \<Rightarrow>
         (case py_setitem one_args (- 1 - control) P1 of
             Inl e \<Rightarrow> (Inl e, self4)
           | Inr one_args' \<Rightarrow>
         (case py_setitem one_args' (- 1 - target) X_gate of
             Inl e \<Rightarrow> (Inl e, self4)
           | Inr one_args'' \<Rightarrow>
             (Inr (madd (kronecker_product zero_args') (kronecker_product one_args'')),
              self4))))))))))"



fun tflatten :: "'a tensor \<Rightarrow> 'a list" where
  "tflatten (Scalar x) = [x]"
| "tflatten (Axis ts) = concat (map tflatten ts)"




section \<open>The random number generator\<close>

text \<open>
  The process-wide generator of numpy is not part of the repository; it is a parameter
  of the model: a type \<open>'g\<close> of generator states with the operations the source calls.
  \<open>rng_seed\<close> is \<^verbatim>\<open>np.random.seed\<close>, \<open>rng_randint\<close> is
  \<^verbatim>\<open>np.random.randint(low, high)\<close>, \<open>rng_choice2\<close> draws one element of a
  two-element list (\<open>True\<close> for the second), and \<open>rng_choice_p\<close> draws one index
  with the given weights. The generator state is passed explicitly through every call.
\<close>

record 'g rng_ops =
  rng_seed :: "int \<Rightarrow> 'g"
  rng_randint :: "int \<Rightarrow> int \<Rightarrow> 'g \<Rightarrow> int \<times> 'g"
  rng_choice2 :: "'g \<Rightarrow> bool \<times> 'g"
  rng_choice_p :: "real list \<Rightarrow> 'g \<Rightarrow> nat \<times> 'g"

text \<open>\<^verbatim>\<open>np.random.seed(s)\<close> accepts \<open>0 \<le> s < 2^32\<close> only.\<close>

definition random_seed :: "('g, 'x) rng_ops_scheme \<Rightarrow> int \<Rightarrow> error + 'g" where
  "random_seed R s = (if 0 \<le> s \<and> s < 2 ^ 32 then Inr (rng_seed R s) else Inl ValueError)"

definition random_randint ::
  "('g, 'x) rng_ops_scheme \<Rightarrow> int \<Rightarrow> int \<Rightarrow> 'g \<Rightarrow> error + (int \<times> 'g)" where
  "random_randint R low high g =
     (if low < high then Inr (rng_randint R low high g) else Inl ValueError)"

fun choice_bits :: "('g, 'x) rng_ops_scheme \<Rightarrow> nat \<Rightarrow> 'g \<Rightarrow> string \<times> 'g" where
  "choice_bits R 0 g = ([], g)"
| "choice_bits R (Suc k) g =
     (case rng_choice2 R g of
        (b, g1) \<Rightarrow>
          (case choice_bits R k g1 of
             (bs, g2) \<Rightarrow> ((if b then CHR ''1'' else CHR ''0'') # bs, g2)))"

text \<open>\<^verbatim>\<open>''.join(np.random.choice(['0', '1'], size=n))\<close>; a negative size is
  rejected by numpy.\<close>

definition random_bitstring ::
  "('g, 'x) rng_ops_scheme \<Rightarrow> int \<Rightarrow> 'g \<Rightarrow> error + (string \<times> 'g)" where
  "random_bitstring R sz g =
     (if sz < 0 then Inl ValueError else Inr (choice_bits R (nat sz) g))"

fun choice_p_many ::
  "('g, 'x) rng_ops_scheme \<Rightarrow> nat \<Rightarrow> real list \<Rightarrow> 'g \<Rightarrow> nat list \<times> 'g" where
  "choice_p_many R 0 p g = ([], g)"
| "choice_p_many R (Suc k) p g =
     (case rng_choice_p R p g of
        (i, g1) \<Rightarrow> (case choice_p_many R k p g1 of (idxs, g2) \<Rightarrow> (i # idxs, g2)))"

text \<open>\<^verbatim>\<open>np.random.choice(kets, size, p)\<close>: an empty population and weights that are
  not numbers (here: a division by a zero sum) are rejected.\<close>

definition random_choice_p ::
  "('g, 'x) rng_ops_scheme \<Rightarrow> 'a list \<Rightarrow> nat \<Rightarrow> real list \<Rightarrow> 'g \<Rightarrow> error + ('a list \<times> 'g)" where
  "random_choice_p R a sz p g =
     (if a = [] then Inl ValueError
      else if \<not> length p = length a then Inl ValueError
      else if sum_list p = 0 then Inl ValueError
      else case choice_p_many R sz (map (\<lambda>x. x / sum_list p) p) g of
             (idxs, g1) \<Rightarrow> Inr (map (\<lambda>i. a ! (i mod length a)) idxs, g1))"


section \<open>Construction\<close>

text \<open>\<^verbatim>\<open>GateSimulator.__init__(n, seed)\<close>: the two type checks, the seed (a falsy
  seed is replaced by a draw from the generator as it stands), the seeding of the
  generator; the state is \<^verbatim>\<open>None\<close>. The class is passed in for the subclasses.\<close>

definition GateSimulator_init ::
  "('g, 'x) rng_ops_scheme \<Rightarrow> engine \<Rightarrow> pyval \<Rightarrow> pyval \<Rightarrow> 'g \<Rightarrow> (error + sim) \<times> 'g" where
  "GateSimulator_init R cls n seed g =
     (case n of
        PyInt n_int \<Rightarrow>
          if \<not> isinstance_int_or_None seed then (Inl TypeError, g)
          else
            (case (case seed of
                     PyInt s \<Rightarrow> if s \<noteq> 0 then Inr (s, g) else random_randint R 0 1000000 g
                   | _ \<Rightarrow> random_randint R 0 1000000 g) of
               Inl e \<Rightarrow> (Inl e, g)
             | Inr (the_seed, g1) \<Rightarrow>
                 (case random_seed R the_seed of
                    Inl e \<Rightarrow> (Inl e, g1)
                  | Inr g2 \<Rightarrow>
                      (Inr \<lparr>sim_class = cls, sim_n = n_int, sim_seed = the_seed,
                            sim_state = NoState\<rparr>, g2)))
      | _ \<Rightarrow> (Inl TypeError, g))"

text \<open>\<^verbatim>\<open>GateSVSimulator.__init__(n, state, seed)\<close>: the random bitstring is drawn
  whether or not an initial state is given.\<close>

definition GateSVSimulator_init ::
  "('g, 'x) rng_ops_scheme \<Rightarrow> pyval \<Rightarrow> pyval \<Rightarrow> pyval \<Rightarrow> 'g \<Rightarrow> (error + sim) \<times> 'g" where
  "GateSVSimulator_init R n state seed g =
     (case GateSimulator_init R GateSVSimulator n seed g of
        (Inl e, g1) \<Rightarrow> (Inl e, g1)
      | (Inr self, g1) \<Rightarrow>
          if \<not> isinstance_str_or_None state then (Inl TypeError, g1)
          else
            (case random_bitstring R (sim_n self) g1 of
               Inl e \<Rightarrow> (Inl e, g1)
             | Inr (bitstring, g2) \<Rightarrow>
                 (case initialize_state self
                         (if truthy state then state else PyStr bitstring) True of
                    (Inl e, self1) \<Rightarrow> (Inl e, g2)
                  | (Inr m, self1) \<Rightarrow> (Inr (self1\<lparr>sim_state := MatState m\<rparr>), g2))))"

text \<open>\<^verbatim>\<open>np.zeros(shape)\<close>, and the assignment \<^verbatim>\<open>state[idx] = v\<close> with a tuple
  of integers: a tuple shorter than the rank fills a whole sub-array, a longer one or a
  position out of range raises \<^verbatim>\<open>IndexError\<close>.\<close>

fun zeros :: "nat list \<Rightarrow> real tensor" where
  "zeros [] = Scalar 0"
| "zeros (d # ds) = Axis (replicate d (zeros ds))"

fun tfill :: "'a tensor \<Rightarrow> 'a \<Rightarrow> 'a tensor" where
  "tfill (Scalar _) v = Scalar v"
| "tfill (Axis ts) v = Axis (map (\<lambda>t. tfill t v) ts)"

fun tset :: "'a tensor \<Rightarrow> nat list \<Rightarrow> 'a \<Rightarrow> error + 'a tensor" where
  "tset t [] v = Inr (tfill t v)"
| "tset (Scalar _) (i # idx) v = Inl IndexError"
| "tset (Axis ts) (i # idx) v =
     (if i < length ts then
        (case tset (ts ! i) idx v of
           Inl e \<Rightarrow> Inl e
         | Inr t' \<Rightarrow> Inr (Axis (ts[i := t'])))
      else Inl IndexError)"

text \<open>\<^verbatim>\<open>int(bit)\<close> on a one-character string.\<close>

definition int_of_char :: "char \<Rightarrow> error + nat" where
  "int_of_char ch =
     (let c = (of_char ch :: nat)
      in if 48 \<le> c \<and> c \<le> 57 then Inr (c - 48) else Inl ValueError)"

fun ints_of_string :: "string \<Rightarrow> error + nat list" where
  "ints_of_string [] = Inr []"
| "ints_of_string (ch # cs) =
     (case int_of_char ch of
        Inl e \<Rightarrow> Inl e
      | Inr d \<Rightarrow> (case ints_of_string cs of Inl e \<Rightarrow> Inl e | Inr ds \<Rightarrow> Inr (d # ds)))"

text \<open>\<^verbatim>\<open>GateTensorSimulator.__init__(n, state, seed)\<close>: the random bitstring is drawn
  only when no initial state is given.\<close>

definition GateTensorSimulator_init ::
  "('g, 'x) rng_ops_scheme \<Rightarrow> pyval \<Rightarrow> pyval \<Rightarrow> pyval \<Rightarrow> 'g \<Rightarrow> (error + sim) \<times> 'g" where
  "GateTensorSimulator_init R n state seed g =
     (case GateSimulator_init R GateTensorSimulator n seed g of
        (Inl e, g1) \<Rightarrow> (Inl e, g1)
      | (Inr self, g1) \<Rightarrow>
          if \<not> isinstance_str_or_None state then (Inl TypeError, g1)
          else
            let z = zeros (replicate (nat (sim_n self)) 2) in
            (case (case state of
                     PyStr s \<Rightarrow> if s \<noteq> [] then Inr (s, g1)
                                else random_bitstring R (sim_n self) g1
                   | _ \<Rightarrow> random_bitstring R (sim_n self) g1) of
               Inl e \<Rightarrow> (Inl e, g1)
             | Inr (bitstring, g2) \<Rightarrow>
                 (case ints_of_string bitstring of
                    Inl e \<Rightarrow> (Inl e, g2)
                  | Inr idx \<Rightarrow>
                      (case tset z idx 1 of
                         Inl e \<Rightarrow> (Inl e, g2)
                       | Inr t \<Rightarrow> (Inr (self\<lparr>sim_state := TenState t\<rparr>), g2)))))"

section \<open>Rendering\<close>

text \<open>Decimal and binary digits of a natural number, \<^verbatim>\<open>str.zfill\<close>, and
  \<^verbatim>\<open>to_bin\<close>.\<close>

definition digit_char :: "nat \<Rightarrow> char" where
  "digit_char k = ''0123456789'' ! (k mod 10)"

fun digits :: "nat \<Rightarrow> nat \<Rightarrow> string" where
  "digits b k =
     (if b < 2 \<or> k < b then [digit_char k]
      else digits b (k div b) @ [digit_char (k mod b)])"

definition zfill :: "string \<Rightarrow> int \<Rightarrow> string" where
  "zfill s width = replicate (nat width - length s) CHR ''0'' @ s"

definition to_bin :: "sim \<Rightarrow> nat \<Rightarrow> string" where
  "to_bin self dec = zfill (digits 2 dec) (sim_n self)"

text \<open>The format \<^verbatim>\<open>:.3f\<close> of a non-negative number: three decimals, the value
  rounded to the nearest thousandth, a tie to the even one.\<close>

definition round_half_even :: "real \<Rightarrow> nat" where
  "round_half_even y =
     (let f = nat \<lfloor>y\<rfloor>; r = y - real_of_int \<lfloor>y\<rfloor>
      in if r < 1 / 2 then f else if 1 / 2 < r then f + 1
         else if even f then f else f + 1)"

definition fmt3 :: "real \<Rightarrow> string" where
  "fmt3 x =
     (let k = round_half_even (x * 1000)
      in digits 10 (k div 1000) @ ''.'' @
         [digit_char (k div 100 mod 10), digit_char (k div 10 mod 10),
          digit_char (k mod 10)])"

definition ket_close :: string where
  "ket_close = [CHR 0xE2, CHR 0x9F, CHR 0xA9]"

text \<open>One term of the rendering, appended to what has been rendered so far. The
  closing bracket of the ket is U+27E9, here its three bytes in UTF-8.\<close>

definition braket_term :: "string \<Rightarrow> real \<Rightarrow> string \<Rightarrow> string" where
  "braket_term braket amplitude label =
     (if braket \<noteq> [] then
        braket @ '' '' @ (if amplitude > 0 then ''+'' else ''-'') @ '' ('' @
        fmt3 \<bar>amplitude\<bar> @ '')|'' @ label @ ket_close
      else ''('' @ fmt3 \<bar>amplitude\<bar> @ '')|'' @ label @ ket_close)"

text \<open>\<^verbatim>\<open>np.where(self.state != 0)[0]\<close>: the row index of every entry that is not
  zero, in row-major order.\<close>

definition where_nonzero_rows :: "real mat \<Rightarrow> nat list" where
  "where_nonzero_rows m =
     concat (map (\<lambda>i. replicate (length (filter (\<lambda>x. x \<noteq> 0) (m ! i))) i) [0..<length m])"

fun row_item :: "real list \<Rightarrow> error + real" where
  "row_item [x] = Inr x"
| "row_item _ = Inl ValueError"

text \<open>The loop of \<^verbatim>\<open>GateSVSimulator.state_to_braket\<close>.\<close>

fun sv_braket_loop :: "sim \<Rightarrow> real mat \<Rightarrow> nat list \<Rightarrow> string \<Rightarrow> error + string" where
  "sv_braket_loop self m [] braket = Inr braket"
| "sv_braket_loop self m (d # dec) braket =
     (case row_item (m ! d) of
        Inl e \<Rightarrow> Inl e
      | Inr x \<Rightarrow>
          let amplitude = (if x > 1 / 10 ^ 10 then x else 0)
          in if amplitude \<noteq> 0
             then sv_braket_loop self m dec (braket_term braket amplitude (to_bin self d))
             else sv_braket_loop self m dec braket)"


text \<open>\<^verbatim>\<open>GateSVSimulator.state_to_braket\<close>. A state of \<^verbatim>\<open>None\<close> is not
  subscriptable; a tensor state does not occur in an object of this class.\<close>

definition state_to_braket_SV :: "sim \<Rightarrow> error + string" where
  "state_to_braket_SV self =
     (case sim_state self of
        MatState m \<Rightarrow> sv_braket_loop self m (where_nonzero_rows m) []
      | NoState \<Rightarrow> Inl TypeError
      | TenState t \<Rightarrow> Inl TypeError)"

text \<open>The positions of a tensor with their entries, in row-major order, and
  \<^verbatim>\<open>GateTensorSimulator.state_to_braket\<close>: the positions of
  \<^verbatim>\<open>np.where(self.state > 0)\<close>, then the test of each amplitude.\<close>

fun tentries :: "'a tensor \<Rightarrow> (nat list \<times> 'a) list"
  and tentries_from :: "nat \<Rightarrow> 'a tensor list \<Rightarrow> (nat list \<times> 'a) list" where
  "tentries (Scalar x) = [([], x)]"
| "tentries (Axis ts) = tentries_from 0 ts"
| "tentries_from i [] = []"
| "tentries_from i (t # ts) =
     map (\<lambda>(idx, v). (i # idx, v)) (tentries t) @ tentries_from (Suc i) ts"

definition mat_as_tensor :: "'a mat \<Rightarrow> 'a tensor" where
  "mat_as_tensor m = Axis (map (\<lambda>r. Axis (map Scalar r)) m)"

fun tensor_braket_loop :: "(nat list \<times> real) list \<Rightarrow> string \<Rightarrow> string" where
  "tensor_braket_loop [] braket = braket"
| "tensor_braket_loop ((q, amplitude) # bin_states) braket =
     (if amplitude > 1 / 10 ^ 10
      then tensor_braket_loop bin_states
             (braket_term braket amplitude (concat (map (digits 10) q)))
      else tensor_braket_loop bin_states braket)"

definition state_to_braket_Tensor :: "sim \<Rightarrow> error + string" where
  "state_to_braket_Tensor self =
     (case sim_state self of
        NoState \<Rightarrow> Inl TypeError
      | MatState m \<Rightarrow>
          Inr (tensor_braket_loop (filter (\<lambda>(q, x). x > 0) (tentries (mat_as_tensor m))) [])
      | TenState t \<Rightarrow>
          Inr (tensor_braket_loop (filter (\<lambda>(q, x). x > 0) (tentries t)) []))"

definition state_to_braket :: "sim \<Rightarrow> error + string" where
  "state_to_braket self =
     (case sim_class self of
        GateSimulator \<Rightarrow> Inl NotImplementedError
      | GateSVSimulator \<Rightarrow> state_to_braket_SV self
      | GateTensorSimulator \<Rightarrow> state_to_braket_Tensor self)"

section \<open>Index contraction\<close>

text \<open>
  \<^verbatim>\<open>np.einsum('<inp>, <qubits> -> <out>', gate, state)\<close> with a two-dimensional first
  operand. Subscripts are code points. numpy accepts letters only, wants one subscript
  for each axis, equal lengths for equal subscripts, and output subscripts that occur in
  the operands, once each. The entry of the result at an assignment of the output
  subscripts is the sum, over the assignments of the other subscripts, of the products of
  the two entries. (Broadcasting of axes of length one is not modelled.)
\<close>

type_synonym label = nat

definition is_letter :: "label \<Rightarrow> bool" where
  "is_letter c = ((65 \<le> c \<and> c \<le> 90) \<or> (97 \<le> c \<and> c \<le> 122))"

fun tshape :: "'a tensor \<Rightarrow> nat list" where
  "tshape (Scalar _) = []"
| "tshape (Axis ts) = length ts # (case ts of [] \<Rightarrow> [] | t # _ \<Rightarrow> tshape t)"

fun tget :: "'a::zero tensor \<Rightarrow> nat list \<Rightarrow> 'a" where
  "tget (Scalar x) idx = x"
| "tget (Axis ts) (i # idx) = tget (ts ! i) idx"
| "tget (Axis ts) [] = 0"

definition dim_of :: "(label \<times> nat) list \<Rightarrow> label \<Rightarrow> nat" where
  "dim_of dims l = (case map_of dims l of Some d \<Rightarrow> d | None \<Rightarrow> 0)"

fun sum_over ::
  "(label \<Rightarrow> nat) \<Rightarrow> label list \<Rightarrow> (label \<Rightarrow> nat) \<Rightarrow> ((label \<Rightarrow> nat) \<Rightarrow> 'a::comm_monoid_add) \<Rightarrow> 'a" where
  "sum_over dm [] env f = f env"
| "sum_over dm (l # ls) env f =
     sum_list (map (\<lambda>k. sum_over dm ls (env(l := k)) f) [0..<dm l])"

fun build ::
  "(label \<Rightarrow> nat) \<Rightarrow> label list \<Rightarrow> (label \<Rightarrow> nat) \<Rightarrow> ((label \<Rightarrow> nat) \<Rightarrow> 'a) \<Rightarrow> 'a tensor" where
  "build dm [] env f = Scalar (f env)"
| "build dm (l # ls) env f =
     Axis (map (\<lambda>k. build dm ls (env(l := k)) f) [0..<dm l])"

definition einsum ::
  "label list \<Rightarrow> label list \<Rightarrow> label list \<Rightarrow> real mat \<Rightarrow> real tensor \<Rightarrow> error + real tensor" where
  "einsum ein_inp qubits_ein ein_out gate state =
     (let dims = zip ein_inp [nrows gate, ncols gate] @ zip qubits_ein (tshape state)
      in if \<not> list_all is_letter (ein_inp @ qubits_ein @ ein_out) then Inl ValueError
         else if \<not> (length ein_inp = 2 \<and> length qubits_ein = length (tshape state))
           then Inl ValueError
         else if \<not> list_all (\<lambda>(l, d). dim_of dims l = d) dims then Inl ValueError
         else if \<not> (distinct ein_out
                    \<and> list_all (\<lambda>l. l \<in> set (ein_inp @ qubits_ein)) ein_out)
           then Inl ValueError
         else
           Inr (build (dim_of dims) ein_out (\<lambda>_. 0)
                  (\<lambda>env. sum_over (dim_of dims)
                     (remdups (filter (\<lambda>l. l \<notin> set ein_out) (ein_inp @ qubits_ein))) env
                     (\<lambda>env'. gate ! env' (ein_inp ! 0) ! env' (ein_inp ! 1)
                              * tget state (map env' qubits_ein)))))"

text \<open>\<^verbatim>\<open>CX @ v\<close> with a one-dimensional \<open>v\<close>, and \<^verbatim>\<open>reshape([2] * n)\<close>.\<close>

definition matvec :: "'a::semiring_0 mat \<Rightarrow> 'a list \<Rightarrow> error + 'a list" where
  "matvec A v = (if ncols A = length v then Inr (map (\<lambda>r. dot r v) A) else Inl ValueError)"

fun reshape2 :: "nat \<Rightarrow> 'a list \<Rightarrow> 'a tensor" where
  "reshape2 0 xs = (case xs of [] \<Rightarrow> Axis [] | x # _ \<Rightarrow> Scalar x)"
| "reshape2 (Suc k) xs = Axis [reshape2 k (take (2 ^ k) xs), reshape2 k (drop (2 ^ k) xs)]"

definition reshape :: "'a list \<Rightarrow> nat \<Rightarrow> error + 'a tensor" where
  "reshape xs k = (if length xs = 2 ^ k then Inr (reshape2 k xs) else Inl ValueError)"


section \<open>The two engines\<close>

text \<open>The bundle returned by \<^verbatim>\<open>make_operations\<close> and passed to
  \<^verbatim>\<open>apply_operations\<close>.\<close>

datatype args =
    SVArgs "real mat" "real mat"
  | TensorArgs "(real mat \<times> label list \<times> label list) list" "real mat" "label list"

text \<open>The loop \<^verbatim>\<open>while target == control: target = np.random.randint(0, self.n)\<close>.
  Nothing bounds the number of draws, so not returning is the value \<open>None\<close>.\<close>

partial_function (option) redraw_target ::
  "('g, 'x) rng_ops_scheme \<Rightarrow> int \<Rightarrow> int \<Rightarrow> int \<Rightarrow> 'g \<Rightarrow> (error + int \<times> 'g) option" where
  "redraw_target R n control target g =
     (if target = control then
        (case random_randint R 0 n g of
           Inl e \<Rightarrow> Some (Inl e)
         | Inr (t, g1) \<Rightarrow> redraw_target R n control t g1)
      else Some (Inr (target, g)))"

definition draw_control_target ::
  "('g, 'x) rng_ops_scheme \<Rightarrow> int \<Rightarrow> 'g \<Rightarrow> (error + int \<times> int \<times> 'g) option" where
  "draw_control_target R n g =
     (case random_randint R 0 n g of
        Inl e \<Rightarrow> Some (Inl e)
      | Inr (control, g1) \<Rightarrow>
          (case random_randint R 0 n g1 of
             Inl e \<Rightarrow> Some (Inl e)
           | Inr (target, g2) \<Rightarrow>
               (case redraw_target R n control target g2 of
                  None \<Rightarrow> None
                | Some (Inl e) \<Rightarrow> Some (Inl e)
                | Some (Inr (target', g3)) \<Rightarrow> Some (Inr (control, target', g3)))))"

text \<open>\<^verbatim>\<open>GateSVSimulator.make_operations\<close>.\<close>

definition make_operations_SV ::
  "('g, 'x) rng_ops_scheme \<Rightarrow> sim \<Rightarrow> 'g \<Rightarrow> ((error + args) \<times> sim \<times> 'g) option" where
  "make_operations_SV R self g =
     (if sim_n self < 2 then Some (Inr (SVArgs H_gate I_gate), self, g)
      else
        let num_of_H = sim_n self div 2;
            num_of_X = sim_n self div 2;
            operations_list = replicate (nat num_of_H) H_gate @ replicate (nat num_of_X) X_gate;
            operations_list = (if int (length operations_list) < sim_n self
                               then operations_list @ [I_gate] else operations_list);
            operations = kronecker_product operations_list
        in case draw_control_target R (sim_n self) g of
             None \<Rightarrow> None
           | Some (Inl e) \<Rightarrow> Some (Inl e, self, g)
           | Some (Inr (control, target, g1)) \<Rightarrow>
               (case CX self control target of
                  (Inl e, self1) \<Rightarrow> Some (Inl e, self1, g1)
                | (Inr cx, self1) \<Rightarrow> Some (Inr (SVArgs operations cx), self1, g1)))"

text \<open>\<^verbatim>\<open>GateSVSimulator.apply_operations\<close>: \<^verbatim>\<open>CX @ operations @ self.state\<close>,
  the products taken from the left.\<close>

definition apply_operations_SV :: "sim \<Rightarrow> real mat \<Rightarrow> real mat \<Rightarrow> (error + unit) \<times> sim" where
  "apply_operations_SV self operations cx =
     (case matmul cx operations of
        Inl e \<Rightarrow> (Inl e, self)
      | Inr A \<Rightarrow>
          (case sim_state self of
             MatState m \<Rightarrow>
               (case matmul A m of
                  Inl e \<Rightarrow> (Inl e, self)
                | Inr m' \<Rightarrow> (Inr (), self\<lparr>sim_state := MatState m'\<rparr>))
           | NoState \<Rightarrow> (Inl TypeError, self)
           | TenState t \<Rightarrow> (Inl ValueError, self)))"

text \<open>\<^verbatim>\<open>GateTensorSimulator.make_operations\<close>. The subscript of qubit \<open>i\<close> is
  \<^verbatim>\<open>chr(ord('b') + i)\<close>; \<^verbatim>\<open>'a'\<close> is the code point 97.\<close>

definition ein_step :: "label list \<Rightarrow> real mat \<Rightarrow> nat \<Rightarrow> real mat \<times> label list \<times> label list" where
  "ein_step qubits_ein gate i =
     (let ein_inp = [97, qubits_ein ! i];
          ein_out = map (\<lambda>c. if c = last ein_inp then hd ein_inp else c) qubits_ein
      in (gate, ein_inp, ein_out))"

definition make_operations_Tensor ::
  "('g, 'x) rng_ops_scheme \<Rightarrow> sim \<Rightarrow> 'g \<Rightarrow> ((error + args) \<times> sim \<times> 'g) option" where
  "make_operations_Tensor R self g =
     (let qubits_ein = map (\<lambda>i. 98 + i) [0..<nat (sim_n self)]
      in if sim_n self < 2
         then Some (Inr (TensorArgs [(H_gate, [97, 98], [97])] I_gate qubits_ein), self, g)
         else
           let num_of_H = nat (sim_n self div 2);
               num_of_X = nat (sim_n self div 2);
               operations_list =
                 map (\<lambda>i. ein_step qubits_ein H_gate i) [0..<num_of_H] @
                 map (\<lambda>i. ein_step qubits_ein X_gate (i + num_of_H)) [0..<num_of_X]
           in case draw_control_target R (sim_n self) g of
                None \<Rightarrow> None
              | Some (Inl e) \<Rightarrow> Some (Inl e, self, g)
              | Some (Inr (control, target, g1)) \<Rightarrow>
                  (case CX self control target of
                     (Inl e, self1) \<Rightarrow> Some (Inl e, self1, g1)
                   | (Inr cx, self1) \<Rightarrow>
                       Some (Inr (TensorArgs (rev operations_list) cx qubits_ein), self1, g1)))"

text \<open>\<^verbatim>\<open>GateTensorSimulator.apply_operations\<close>. The loop rebinds the state after each
  contraction; then the flattened state is multiplied by the controlled gate, stored, and
  reshaped. The array stored between the product and the reshape is taken to be
  one-dimensional.\<close>

fun state_as_tensor :: "st \<Rightarrow> error + real tensor" where
  "state_as_tensor NoState = Inl TypeError"
| "state_as_tensor (MatState m) = Inr (mat_as_tensor m)"
| "state_as_tensor (TenState t) = Inr t"

fun einsum_loop ::
  "sim \<Rightarrow> (real mat \<times> label list \<times> label list) list \<Rightarrow> label list \<Rightarrow> (error + unit) \<times> sim" where
  "einsum_loop self [] qubits_ein = (Inr (), self)"
| "einsum_loop self ((gate, ein_inp, ein_out) # operations) qubits_ein =
     (case state_as_tensor (sim_state self) of
        Inl e \<Rightarrow> (Inl e, self)
      | Inr t \<Rightarrow>
          (case einsum ein_inp qubits_ein ein_out gate t of
             Inl e \<Rightarrow> (Inl e, self)
           | Inr t' \<Rightarrow> einsum_loop (self\<lparr>sim_state := TenState t'\<rparr>) operations qubits_ein))"

definition apply_operations_Tensor ::
  "sim \<Rightarrow> (real mat \<times> label list \<times> label list) list \<Rightarrow> real mat \<Rightarrow> label list
     \<Rightarrow> (error + unit) \<times> sim" where
  "apply_operations_Tensor self operations cx qubits_ein =
     (case einsum_loop self operations qubits_ein of
        (Inl e, self1) \<Rightarrow> (Inl e, self1)
      | (Inr u, self1) \<Rightarrow>
          (case sim_state self1 of
             NoState \<Rightarrow> (Inl AttributeError, self1)
           | MatState m \<Rightarrow> (Inl ValueError, self1)
           | TenState t \<Rightarrow>
               (case matvec cx (tflatten t) of
                  Inl e \<Rightarrow> (Inl e, self1)
                | Inr v \<Rightarrow>
                    let self2 = self1\<lparr>sim_state := TenState (Axis (map Scalar v))\<rparr>
                    in (case reshape v (nat (sim_n self2)) of
                          Inl e \<Rightarrow> (Inl e, self2)
                        | Inr t' \<Rightarrow> (Inr (), self2\<lparr>sim_state := TenState t'\<rparr>)))))"

text \<open>The methods as the object's class selects them.\<close>

definition make_operations ::
  "('g, 'x) rng_ops_scheme \<Rightarrow> sim \<Rightarrow> 'g \<Rightarrow> ((error + args) \<times> sim \<times> 'g) option" where
  "make_operations R self g =
     (case sim_class self of
        GateSimulator \<Rightarrow> Some (Inl NotImplementedError, self, g)
      | GateSVSimulator \<Rightarrow> make_operations_SV R self g
      | GateTensorSimulator \<Rightarrow> make_operations_Tensor R self g)"

fun apply_operations :: "sim \<Rightarrow> args \<Rightarrow> (error + unit) \<times> sim" where
  "apply_operations self (SVArgs operations cx) =
     (case sim_class self of
        GateSimulator \<Rightarrow> (Inl NotImplementedError, self)
      | GateSVSimulator \<Rightarrow> apply_operations_SV self operations cx
      | GateTensorSimulator \<Rightarrow> (Inl TypeError, self))"
| "apply_operations self (TensorArgs operations cx qubits_ein) =
     (case sim_class self of
        GateSimulator \<Rightarrow> (Inl NotImplementedError, self)
      | GateSVSimulator \<Rightarrow> (Inl TypeError, self)
      | GateTensorSimulator \<Rightarrow> apply_operations_Tensor self operations cx qubits_ein)"

text \<open>One round, as the profiling harness and \<^verbatim>\<open>sample_probability\<close> run it:
  \<^verbatim>\<open>args = make_operations()\<close>, then \<^verbatim>\<open>apply_operations(*args)\<close>.\<close>

definition one_round ::
  "('g, 'x) rng_ops_scheme \<Rightarrow> sim \<Rightarrow> 'g \<Rightarrow> ((error + unit) \<times> sim \<times> 'g) option" where
  "one_round R self g =
     (case make_operations R self g of
        None \<Rightarrow> None
      | Some (Inl e, self1, g1) \<Rightarrow> Some (Inl e, self1, g1)
      | Some (Inr a, self1, g1) \<Rightarrow>
          (case apply_operations self1 a of (r, self2) \<Rightarrow> Some (r, self2, g1)))"

fun rounds ::
  "('g, 'x) rng_ops_scheme \<Rightarrow> nat \<Rightarrow> sim \<Rightarrow> 'g \<Rightarrow> ((error + unit) \<times> sim \<times> 'g) option" where
  "rounds R 0 self g = Some (Inr (), self, g)"
| "rounds R (Suc k) self g =
     (case one_round R self g of
        None \<Rightarrow> None
      | Some (Inl e, self1, g1) \<Rightarrow> Some (Inl e, self1, g1)
      | Some (Inr u, self1, g1) \<Rightarrow> rounds R k self1 g1)"

section \<open>Sampling\<close>

text \<open>\<^verbatim>\<open>re.findall(r'\((.*?)\)', braket)\<close>: the text between each opening
  parenthesis and the next closing one.\<close>

fun findall_paren :: "bool \<Rightarrow> string \<Rightarrow> string \<Rightarrow> string list" where
  "findall_paren inside acc [] = []"
| "findall_paren inside acc (c # cs) =
     (if inside then
        (if c = CHR '')'' then rev acc # findall_paren False [] cs
         else findall_paren True (c # acc) cs)
      else
        (if c = CHR ''('' then findall_paren True [] cs
         else findall_paren False [] cs))"

text \<open>The pattern for the kets: from a bar to the next closing bracket, both included.\<close>

fun findall_ket :: "bool \<Rightarrow> string \<Rightarrow> string \<Rightarrow> string list" where
  "findall_ket inside acc [] = []"
| "findall_ket inside acc (c # cs) =
     (if inside then
        (if take 3 (c # cs) = ket_close then (rev acc @ ket_close) # findall_ket False [] cs
         else findall_ket True (c # acc) cs)
      else
        (if c = CHR ''|'' then findall_ket True [c] cs
         else findall_ket False [] cs))"

text \<open>The conversion of the rendered amplitudes to floats: digits, a point, digits.\<close>

fun digits_value :: "string \<Rightarrow> nat \<Rightarrow> nat option" where
  "digits_value [] acc = Some acc"
| "digits_value (c # cs) acc =
     (if 48 \<le> (of_char c :: nat) \<and> (of_char c :: nat) \<le> 57
      then digits_value cs (10 * acc + (of_char c - 48)) else None)"

definition parse_float :: "string \<Rightarrow> error + real" where
  "parse_float s =
     (let ip = takeWhile (\<lambda>c. c \<noteq> CHR ''.'') s;
          fp = drop 1 (dropWhile (\<lambda>c. c \<noteq> CHR ''.'') s)
      in if ip = [] \<or> fp = [] then Inl ValueError
         else case (digits_value ip 0, digits_value fp 0) of
                (Some a, Some b) \<Rightarrow> Inr (real a + real b / 10 ^ length fp)
              | _ \<Rightarrow> Inl ValueError)"

fun parse_floats :: "string list \<Rightarrow> error + real list" where
  "parse_floats [] = Inr []"
| "parse_floats (s # ss) =
     (case parse_float s of
        Inl e \<Rightarrow> Inl e
      | Inr x \<Rightarrow> (case parse_floats ss of Inl e \<Rightarrow> Inl e | Inr xs \<Rightarrow> Inr (x # xs)))"

text \<open>\<^verbatim>\<open>sample_probability\<close>: a round is built and applied first; then the rendering
  is parsed and 1024 kets are drawn with the parsed weights. The bar chart is not
  modelled; the method returns nothing.\<close>

definition sample_probability ::
  "('g, 'x) rng_ops_scheme \<Rightarrow> sim \<Rightarrow> 'g \<Rightarrow> ((error + unit) \<times> sim \<times> 'g) option" where
  "sample_probability R self g =
     (case make_operations R self g of
        None \<Rightarrow> None
      | Some (Inl e, self1, g1) \<Rightarrow> Some (Inl e, self1, g1)
      | Some (Inr a, self1, g1) \<Rightarrow>
          (case apply_operations self1 a of
             (Inl e, self2) \<Rightarrow> Some (Inl e, self2, g1)
           | (Inr u, self2) \<Rightarrow>
               (case state_to_braket self2 of
                  Inl e \<Rightarrow> Some (Inl e, self2, g1)
                | Inr braket \<Rightarrow>
                    (case parse_floats (findall_paren False [] braket) of
                       Inl e \<Rightarrow> Some (Inl e, self2, g1)
                     | Inr amplitudes \<Rightarrow>
                         let probabilities = map (\<lambda>a. \<bar>a\<bar> ^ 2) amplitudes;
                             kets = findall_ket False [] braket
                         in (case random_choice_p R kets 1024 probabilities g1 of
                               Inl e \<Rightarrow> Some (Inl e, self2, g1)
                             | Inr (states, g2) \<Rightarrow> Some (Inr (), self2, g2))))))"


section \<open>A generator for concrete runs\<close>

text \<open>A small deterministic generator to run the model on: the state is a natural
  number, seeding stores the seed, and every draw reads the state and halves it.\<close>

definition shift_rng :: "nat rng_ops" where
  "shift_rng =
     \<lparr>rng_seed = (\<lambda>s. nat s),
      rng_randint = (\<lambda>low high g. (low + int g mod (high - low), g div 2)),
      rng_choice2 = (\<lambda>g. (odd g, g div 2)),
      rng_choice_p = (\<lambda>p g. (g mod length p, g div 2))\<rparr>"


section \<open>The generator of numpy, replayed\<close>

text \<open>
  \<^verbatim>\<open>np.random.seed(s)\<close> initialises the Mersenne Twister MT19937 with
  \<^verbatim>\<open>init_genrand(s)\<close>; every draw consumes 32-bit outputs of it. The replay generator
  keeps the outputs still to come as a list. \<^verbatim>\<open>randint(low, high)\<close> below \<open>2^32\<close>
  masks an output with the smallest \<open>2^k - 1\<close> that covers \<open>high - low - 1\<close> and
  rejects it while it is larger; a choice from two elements is \<^verbatim>\<open>randint(0, 2)\<close>,
  the lowest bit of one output; a weighted choice builds a double in \<open>[0, 1)\<close> from two
  outputs and counts the cumulated weights that do not exceed it.
  \<open>mt19937_seed_1\<close> is the beginning of the stream after \<^verbatim>\<open>init_genrand(1)\<close>.
\<close>

definition mt19937_seed_1 :: "nat list" where
  "mt19937_seed_1 =
     [1791095845, 4282876139, 3093770124, 4005303368, 491263,
      550290313, 1298508491, 4290846341, 630311759, 1013994432]"

definition numpy_seed_stream :: "int \<Rightarrow> nat list" where
  "numpy_seed_stream s = (if s = 1 then mt19937_seed_1 else [])"

fun mask_of :: "nat \<Rightarrow> nat" where
  "mask_of 0 = 0"
| "mask_of (Suc r) = 2 * mask_of (Suc r div 2) + 1"

fun masked_draw :: "nat \<Rightarrow> nat \<Rightarrow> nat list \<Rightarrow> nat \<times> nat list" where
  "masked_draw msk r [] = (0, [])"
| "masked_draw msk r (x # xs) =
     (if x mod (msk + 1) \<le> r then (x mod (msk + 1), xs) else masked_draw msk r xs)"

definition replay_randint :: "int \<Rightarrow> int \<Rightarrow> nat list \<Rightarrow> int \<times> nat list" where
  "replay_randint low high g =
     (let r = nat (high - low - 1)
      in if r = 0 then (low, g)
         else case masked_draw (mask_of r) r g of (v, g1) \<Rightarrow> (low + int v, g1))"

fun replay_choice2 :: "nat list \<Rightarrow> bool \<times> nat list" where
  "replay_choice2 [] = (False, [])"
| "replay_choice2 (x # xs) = (odd x, xs)"

fun cumsum :: "real \<Rightarrow> real list \<Rightarrow> real list" where
  "cumsum acc [] = []"
| "cumsum acc (x # xs) = (acc + x) # cumsum (acc + x) xs"

fun replay_choice_p :: "real list \<Rightarrow> nat list \<Rightarrow> nat \<times> nat list" where
  "replay_choice_p p (a # b # xs) =
     (let u = (real (a div 32) * 67108864 + real (b div 64)) / 9007199254740992
      in (length (filter (\<lambda>c. c \<le> u) (cumsum 0 p)), xs))"
| "replay_choice_p p xs = (0, [])"

definition replay_rng :: "(int \<Rightarrow> nat list) \<Rightarrow> nat list rng_ops" where
  "replay_rng stream =
     \<lparr>rng_seed = stream, rng_randint = replay_randint,
      rng_choice2 = replay_choice2, rng_choice_p = replay_choice_p\<rparr>"

section \<open>Notions used to state the properties\<close>

text \<open>The basis state \<open>|k\<rangle>\<close> of dimension \<open>m\<close> as a column, the value of a
  bitstring read as a binary numeral (most significant digit first), and the identity
  operator.\<close>

definition unit_column :: "nat \<Rightarrow> nat \<Rightarrow> real mat" where
  "unit_column m k = map (\<lambda>i. [if i = k then 1 else 0]) [0..<m]"

definition bits_value :: "string \<Rightarrow> nat" where
  "bits_value bs = foldl (\<lambda>a b. 2 * a + (if b = CHR ''1'' then 1 else 0)) 0 bs"

definition ket_of_bit :: "char \<Rightarrow> real mat" where
  "ket_of_bit b = (if b = CHR ''1'' then one_ket else zero_ket)"

definition identity_mat :: "nat \<Rightarrow> 'a::{zero,one} mat" where
  "identity_mat m = map (\<lambda>i. map (\<lambda>j. if i = j then 1 else 0) [0..<m]) [0..<m]"

text \<open>The amplitudes of a stored state in row-major order, and the sum of their
  squares.\<close>

fun state_amplitudes :: "st \<Rightarrow> real list" where
  "state_amplitudes NoState = []"
| "state_amplitudes (MatState m) = concat m"
| "state_amplitudes (TenState t) = tflatten t"


text \<open>Construction by class, and the scenario of the cross-model comparison: construct,
  run one round, read the amplitudes.\<close>

definition construct ::
  "('g, 'x) rng_ops_scheme \<Rightarrow> engine \<Rightarrow> pyval \<Rightarrow> pyval \<Rightarrow> pyval \<Rightarrow> 'g \<Rightarrow> (error + sim) \<times> 'g" where
  "construct R cls n state seed g =
     (case cls of
        GateSimulator \<Rightarrow> GateSimulator_init R GateSimulator n seed g
      | GateSVSimulator \<Rightarrow> GateSVSimulator_init R n state seed g
      | GateTensorSimulator \<Rightarrow> GateTensorSimulator_init R n state seed g)"

definition construct_and_round ::
  "('g, 'x) rng_ops_scheme \<Rightarrow> engine \<Rightarrow> pyval \<Rightarrow> pyval \<Rightarrow> pyval \<Rightarrow> 'g
     \<Rightarrow> (error + sim) option" where
  "construct_and_round R cls n state seed g =
     (case construct R cls n state seed g of
        (Inl e, g1) \<Rightarrow> Some (Inl e)
      | (Inr self, g1) \<Rightarrow>
          (case one_round R self g1 of
             None \<Rightarrow> None
           | Some (Inl e, self1, g2) \<Rightarrow> Some (Inl e)
           | Some (Inr u, self1, g2) \<Rightarrow> Some (Inr self1)))"


definition P0_mat :: "real mat" where
  "P0_mat = [[1, 0], [0, 0]]"

definition P1_mat :: "real mat" where
  "P1_mat = [[0, 0], [0, 1]]"

definition sim0 :: "engine \<Rightarrow> int \<Rightarrow> sim" where
  "sim0 cls k = \<lparr>sim_class = cls, sim_n = k, sim_seed = 1, sim_state = NoState\<rparr>"

section \<open>Notions used in the proofs\<close>

text \<open>Well-formed matrices, maps that behave like complex conjugation, matrices with
  orthonormal columns with respect to such a map, binary digits, and the permutation of
  basis indices the controlled gate performs.\<close>

definition mat :: "nat \<Rightarrow> nat \<Rightarrow> 'a mat \<Rightarrow> bool" where
  "mat r c A = (length A = r \<and> list_all (\<lambda>row. length row = c) A)"

definition conj_like :: "('a::comm_ring_1 \<Rightarrow> 'a) \<Rightarrow> bool" where
  "conj_like cj = ((\<forall>x y. cj (x + y) = cj x + cj y) \<and> (\<forall>x y. cj (x * y) = cj x * cj y)
       \<and> cj 0 = 0 \<and> cj 1 = 1)"

definition unitary_on :: "('a::comm_ring_1 \<Rightarrow> 'a) \<Rightarrow> nat \<Rightarrow> 'a mat \<Rightarrow> bool" where
  "unitary_on cj m M =
     (mat m m M \<and> (\<forall>i<m. \<forall>j<m. (\<Sum>l<m. cj (M ! l ! i) * M ! l ! j) = (if i = j then 1 else 0)))"

definition bitn :: "nat \<Rightarrow> nat \<Rightarrow> nat" where
  "bitn i q = (i div 2 ^ q) mod 2"

definition cx_perm :: "nat \<Rightarrow> nat \<Rightarrow> nat \<Rightarrow> nat" where
  "cx_perm c t j = (if bit j c then flip_bit t j else j)"

definition cx_matrix :: "nat \<Rightarrow> nat \<Rightarrow> nat \<Rightarrow> real mat" where
  "cx_matrix N c t =
     madd (kronecker_product ((replicate N I_gate)[N - 1 - c := P0_mat]))
          (kronecker_product ((replicate N I_gate)[N - 1 - c := P1_mat, N - 1 - t := X_gate]))"


section \<open>The state initialiser\<close>

lemma upt_double_Suc: "[0..<2 * Suc m] = [0..<2 * m] @ [2 * m, 2 * m + 1]"
  by simp

lemma kron_unit_zero: "kron (unit_column m k) zero_ket = unit_column (2 * m) (2 * k)"
proof (induction m)
  case 0
  show ?case by (simp add: unit_column_def kron_def)
next
  case (Suc m)
  then show ?case unfolding upt_double_Suc unit_column_def
    by (auto simp: kron_def zero_ket_def; presburger)
qed

lemma kron_unit_one: "kron (unit_column m k) one_ket = unit_column (2 * m) (2 * k + 1)"
proof (induction m)
  case 0
  show ?case by (simp add: unit_column_def kron_def)
next
  case (Suc m)
  then show ?case unfolding upt_double_Suc unit_column_def
    by (auto simp: kron_def one_ket_def; presburger)
qed

lemma foldl_kets:
  "foldl (\<lambda>state bit. if bit = CHR ''1'' then kron state one_ket else kron state zero_ket)
      (unit_column m k) bs
   = unit_column (m * 2 ^ length bs)
       (foldl (\<lambda>a b. 2 * a + (if b = CHR ''1'' then 1 else 0)) k bs)"
proof (induction bs arbitrary: m k)
  case Nil
  show ?case by simp
next
  case (Cons b bs)
  have e: "2 * m * 2 ^ length bs = m * 2 ^ length (b # bs)" by simp
  show ?case
    by (simp add: kron_unit_zero kron_unit_one Cons.IH e del: length_Cons power_Suc)
qed

lemma one_is_unit: "unit_column (Suc 0) 0 = [[1::real]]"
  by (simp add: unit_column_def)

lemma foldl_kets_kp:
  "foldl (\<lambda>state bit. if bit = CHR ''1'' then kron state one_ket else kron state zero_ket) A bs
   = foldl kron A (map ket_of_bit bs)"
  by (induction bs arbitrary: A) (simp_all add: ket_of_bit_def)

lemma init_fold:
  "foldl (\<lambda>state bit. if bit = CHR ''1'' then kron state one_ket else kron state zero_ket)
     [[1]] bs
   = unit_column (2 ^ length bs) (bits_value bs)"
  using foldl_kets[of 1 0 bs] by (simp add: one_is_unit bits_value_def)

lemma initialize_state_unit:
  "list_all is_bit bs \<Longrightarrow>
   initialize_state self (PyStr bs) change =
     (Inr (unit_column (2 ^ length bs) (bits_value bs)),
      self\<lparr>sim_state := (if change then MatState (unit_column (2 ^ length bs) (bits_value bs))
                          else sim_state self)\<rparr>)"
  by (simp add: init_fold Let_def)

text \<open>
  C8, as the code has it. \<^verbatim>\<open>initialize_state\<close> raises exactly when a character of the
  string is not \<^verbatim>\<open>'0'\<close> or \<^verbatim>\<open>'1'\<close>; the length is not compared with the qubit
  count. For every string of binary digits, of any length, it returns the tensor product
  of the single-qubit basis vectors taken left to right, which is the basis column with
  its one at the row the string denotes in binary; the stored state is rebound to it only
  when \<^verbatim>\<open>change\<close> is set.
\<close>

theorem initialize_state_result:
  "initialize_state self (PyStr bs) change =
     (if list_all is_bit bs
      then (Inr (unit_column (2 ^ length bs) (bits_value bs)),
            self\<lparr>sim_state :=
                   (if change then MatState (unit_column (2 ^ length bs) (bits_value bs))
                    else sim_state self)\<rparr>)
      else (Inl PyException, self))
   \<and> unit_column (2 ^ length bs) (bits_value bs) = kronecker_product (map ket_of_bit bs)"
  using foldl_kets_kp[of "[[1]]" bs]
  by (simp add: init_fold kronecker_product_def Let_def)

theorem initialize_state_result_witness:
  "initialize_state (sim0 GateSVSimulator 2) (PyStr ''01'') True =
     (Inr [[0], [1], [0], [0]],
      (sim0 GateSVSimulator 2)\<lparr>sim_state := MatState [[0], [1], [0], [0]]\<rparr>)
   \<and> [[0], [1], [0], [0]] = kronecker_product [zero_ket, one_ket]"
proof -
  have e: "unit_column (2 ^ length ''01'') (bits_value ''01'') = [[0], [1], [0], [0]]"
    by (simp add: unit_column_def bits_value_def eval_nat_numeral)
  have b: "list_all is_bit ''01''"
    by (simp add: is_bit_def)
  have k: "map ket_of_bit ''01'' = [zero_ket, one_ket]"
    by (simp add: ket_of_bit_def)
  show ?thesis
    using initialize_state_result[of "sim0 GateSVSimulator 2" "''01''" True]
    unfolding e k by (simp only: b if_True)
qed

text \<open>
  C8, as the claim states it, fails: on a simulator of two qubits the one-character string
  \<^verbatim>\<open>'0'\<close> is accepted, and the two-entry column is returned.
\<close>

theorem initialize_state_length_counterexample:
  "sim_n (sim0 GateSVSimulator 2) = 2 \<and> length ''0'' = 1 \<and>
   fst (initialize_state (sim0 GateSVSimulator 2) (PyStr ''0'') False) = Inr [[1], [0]]"
  by (simp add: sim0_def is_bit_def kron_def zero_ket_def)

section \<open>The controlled gate leaves the simulator alone\<close>

lemma init0: "initialize_state self (PyStr ''0'') False = (Inr [[1], [0]], self)"
  by (simp add: is_bit_def kron_def zero_ket_def one_ket_def)

lemma init1: "initialize_state self (PyStr ''1'') False = (Inr [[0], [1]], self)"
  by (simp add: is_bit_def kron_def zero_ket_def one_ket_def)

lemma P0: "matmul [[1], [0::real]] (mT [[1], [0]]) = Inr P0_mat"
  by (simp add: matmul_def mT_def ncols_def nrows_def mm_def col_def dot_def P0_mat_def)

lemma P1: "matmul [[0], [1::real]] (mT [[0], [1]]) = Inr P1_mat"
  by (simp add: matmul_def mT_def ncols_def nrows_def mm_def col_def dot_def P1_mat_def)

lemma CX_frame: "snd (CX self control target) = self"
  unfolding CX_def
  by (simp add: init0 init1 P0 P1 Let_def split: sum.splits prod.splits
        del: initialize_state.simps)

lemma py_setitem_ok:
  "0 \<le> q \<Longrightarrow> q < int (length xs) \<Longrightarrow>
   py_setitem xs (- 1 - q) v = Inr (xs[length xs - 1 - nat q := v])"
  unfolding py_setitem_def Let_def
  by (auto simp: nat_diff_distrib nat_add_distrib intro!: arg_cong[where f="\<lambda>k. xs[k := v]"])

lemma CX_unfold:
  assumes "0 \<le> control" "control < sim_n self" "0 \<le> target" "target < sim_n self"
    "control \<noteq> target"
  shows "CX self control target =
     (Inr (madd
        (kronecker_product
           ((replicate (nat (sim_n self)) I_gate)[nat (sim_n self) - 1 - nat control := P0_mat]))
        (kronecker_product
           ((replicate (nat (sim_n self)) I_gate)
              [nat (sim_n self) - 1 - nat control := P1_mat,
               nat (sim_n self) - 1 - nat target := X_gate]))), self)"
  using assms unfolding CX_def
  by (simp add: init0 init1 P0 P1 Let_def py_setitem_ok del: initialize_state.simps)

lemma CX_same:
  "control < sim_n self \<Longrightarrow>
   CX self control control = (Inr (kronecker_product (replicate (nat (sim_n self)) I_gate)), self)"
  unfolding CX_def by simp

lemma CX_ok:
  assumes "0 \<le> control" "control < sim_n self" "0 \<le> target" "target < sim_n self"
  shows "\<exists>M. CX self control target = (Inr M, self)"
proof (cases "control = target")
  case True
  then show ?thesis using assms CX_same by simp
next
  case False
  then show ?thesis using assms CX_unfold by simp
qed

text \<open>
  C10. \<^verbatim>\<open>CX(control, target)\<close> hands the simulator back as it found it, whatever the
  arguments, and for an in-bounds control and target it returns an operator: its four
  calls of \<^verbatim>\<open>initialize_state\<close> leave the change flag unset.
\<close>

theorem CX_leaves_state_unchanged:
  "snd (CX self control target) = self \<and>
   (0 \<le> control \<and> control < sim_n self \<and> 0 \<le> target \<and> target < sim_n self
      \<longrightarrow> (\<exists>M. fst (CX self control target) = Inr M))"
  using CX_frame[of self control target] CX_ok[of control self target] by auto

theorem CX_leaves_state_unchanged_witness:
  "snd (CX ((sim0 GateSVSimulator 2)\<lparr>sim_state := MatState [[1], [0], [0], [0]]\<rparr>) 1 0)
     = (sim0 GateSVSimulator 2)\<lparr>sim_state := MatState [[1], [0], [0], [0]]\<rparr>
   \<and> (\<exists>M. fst (CX ((sim0 GateSVSimulator 2)\<lparr>sim_state := MatState [[1], [0], [0], [0]]\<rparr>) 1 0)
            = Inr M)"
  using CX_leaves_state_unchanged
          [of "(sim0 GateSVSimulator 2)\<lparr>sim_state := MatState [[1], [0], [0], [0]]\<rparr>" 1 0]
  by (simp add: sim0_def)


section \<open>Evaluation lemmas\<close>

lemma choice_bits_numeral:
  "choice_bits R (numeral k) g = choice_bits R (Suc (pred_numeral k)) g"
  by (simp add: numeral_eq_Suc)

lemma replicate_numeral: "replicate (numeral k) x = x # replicate (pred_numeral k) x"
  by (simp add: numeral_eq_Suc)

lemma reshape2_numeral: "reshape2 (numeral k) xs = reshape2 (Suc (pred_numeral k)) xs"
  by (simp add: numeral_eq_Suc)

lemma upt_numeral_2: "[0..<2] = [0, Suc 0]"
  by (simp add: upt_rec)

lemma H_gate_eval: "H_gate = [[1 / sqrt 2, 1 / sqrt 2], [1 / sqrt 2, - (1 / sqrt 2)]]"
  by (simp add: H_gate_def smult_def)

lemma sqrt2_lower: "1414 / 1000 < sqrt 2"
  by (rule real_less_rsqrt) (simp add: power2_eq_square)

lemma sqrt2_upper: "sqrt 2 < 14143 / 10000"
  by (rule real_less_lsqrt) (simp_all add: power2_eq_square)

lemma inv_sqrt2_bounds: "707 \<le> 1000 / sqrt 2" "1000 / sqrt 2 < 707 + 1 / 2"
  using sqrt2_lower sqrt2_upper by (simp_all add: field_simps)

lemma floor_inv_sqrt2: "\<lfloor>1000 / sqrt 2\<rfloor> = 707"
  using inv_sqrt2_bounds by (intro floor_unique) simp_all

lemma round_inv_sqrt2: "round_half_even (1000 / sqrt 2) = 707"
  using inv_sqrt2_bounds by (simp add: round_half_even_def floor_inv_sqrt2 Let_def)

lemma fmt3_inv_sqrt2: "fmt3 (1 / sqrt 2) = ''0.707''"
  by (simp add: fmt3_def round_inv_sqrt2 Let_def digit_char_def)

lemma fmt3_one: "fmt3 1 = ''1.000''"
  by (simp add: fmt3_def round_half_even_def Let_def digit_char_def)

lemma inv_sqrt2_gt: "1 / 10 ^ 10 < 1 / sqrt 2"
  using sqrt2_upper by (simp add: field_simps)

lemma neg_inv_sqrt2: "\<not> 1 / 10 ^ 10 < - (1 / sqrt 2)"
proof -
  have "- (1 / sqrt 2) < 0" by simp
  moreover have "(0::real) < 1 / 10 ^ 10" by simp
  ultimately show ?thesis by linarith
qed

section \<open>Sampling applies a round\<close>

lemma sample_probability_state:
  "map_option (\<lambda>(r, s, g). s) (sample_probability R self g)
   = map_option (\<lambda>(r, s, g). s) (one_round R self g)"
  unfolding sample_probability_def one_round_def
  by (auto split: option.splits sum.splits prod.splits simp: Let_def)

lemma one_round_SV1:
  "one_round R \<lparr>sim_class = GateSVSimulator, sim_n = 1, sim_seed = s,
                 sim_state = MatState [[1], [0]]\<rparr> g
   = Some (Inr (), \<lparr>sim_class = GateSVSimulator, sim_n = 1, sim_seed = s,
                     sim_state = MatState [[1 / sqrt 2], [1 / sqrt 2]]\<rparr>, g)"
  by (simp add: one_round_def make_operations_def make_operations_SV_def apply_operations_SV_def
      matmul_def mm_def ncols_def nrows_def col_def dot_def I_gate_def H_gate_eval)

text \<open>
  C2, as the code has it. \<^verbatim>\<open>sample_probability\<close> is not a read-only query: it builds
  and applies one round first (\<^verbatim>\<open>make_operations\<close>, \<^verbatim>\<open>apply_operations\<close>), so the
  simulator after the call is the simulator after one round; the rendering, the parsing of
  the rendering and the 1024 draws that follow read the state and leave it as it is,
  whether they succeed or raise.
\<close>

theorem sample_probability_state_is_one_round:
  "map_option (\<lambda>(r, s, g). s) (sample_probability R self g)
   = map_option (\<lambda>(r, s, g). s) (one_round R self g)"
  by (rule sample_probability_state)

theorem sample_probability_state_is_one_round_witness:
  "map_option (\<lambda>(r, s, g). s)
     (sample_probability shift_rng
        \<lparr>sim_class = GateSVSimulator, sim_n = 1, sim_seed = 1,
           sim_state = MatState [[1], [0]]\<rparr> 0)
   = Some \<lparr>sim_class = GateSVSimulator, sim_n = 1, sim_seed = 1,
            sim_state = MatState [[1 / sqrt 2], [1 / sqrt 2]]\<rparr>"
  using sample_probability_state_is_one_round
          [of shift_rng "\<lparr>sim_class = GateSVSimulator, sim_n = 1, sim_seed = 1,
                            sim_state = MatState [[1], [0]]\<rparr>" "0::nat"]
  by (simp add: one_round_SV1)

text \<open>
  C2, as the claim states it, fails: on the one-qubit dense simulator in the state
  \<open>|0\<rangle>\<close> the call leaves the state \<open>(|0\<rangle> + |1\<rangle>) / \<surd>2\<close> behind.
\<close>

theorem sample_probability_changes_state_counterexample:
  "map_option (\<lambda>(r, s, g). sim_state s)
     (sample_probability shift_rng
        \<lparr>sim_class = GateSVSimulator, sim_n = 1, sim_seed = 1,
           sim_state = MatState [[1], [0]]\<rparr> 0)
   = Some (MatState [[1 / sqrt 2], [1 / sqrt 2]])
   \<and> MatState [[1 / sqrt 2], [1 / sqrt 2]] \<noteq> MatState [[1], [0]]"
proof -
  have "map_option (\<lambda>(r, s, g). sim_state s)
          (sample_probability shift_rng
             \<lparr>sim_class = GateSVSimulator, sim_n = 1, sim_seed = 1,
                sim_state = MatState [[1], [0]]\<rparr> (0::nat))
        = map_option sim_state
            (map_option (\<lambda>(r, s, g). s)
               (sample_probability shift_rng
                  \<lparr>sim_class = GateSVSimulator, sim_n = 1, sim_seed = 1,
                     sim_state = MatState [[1], [0]]\<rparr> (0::nat)))"
    by (simp add: option.map_comp comp_def case_prod_unfold)
  then show ?thesis
    by (simp add: sample_probability_state one_round_SV1)
qed

section \<open>Construction and the qubit count\<close>

lemma base_init_non_int:
  "\<not> isinstance_int n \<Longrightarrow> GateSimulator_init R cls n seed g = (Inl TypeError, g)"
  by (cases n) (simp_all add: GateSimulator_init_def)

lemma tset_scalar_Inr: "tset (Scalar x) idx v = Inr t \<Longrightarrow> idx = []"
  by (cases idx) simp_all

lemma ints_of_string_length: "ints_of_string s = Inr idx \<Longrightarrow> length idx = length s"
  by (induction s arbitrary: idx) (auto split: sum.splits)

lemma SV_init_negative:
  "k < 0 \<Longrightarrow> isl (fst (GateSVSimulator_init R (PyInt k) state seed g))"
  unfolding GateSVSimulator_init_def GateSimulator_init_def random_bitstring_def
  by (auto split: sum.splits prod.splits pyval.splits simp: Let_def)

lemma Tensor_init_negative:
  "k < 0 \<Longrightarrow> isl (fst (GateTensorSimulator_init R (PyInt k) state seed g))"
  unfolding GateTensorSimulator_init_def GateSimulator_init_def random_bitstring_def
  by (auto split: sum.splits prod.splits pyval.splits simp: Let_def
        dest!: ints_of_string_length tset_scalar_Inr)

lemma base_init_accepts:
  "s \<noteq> 0 \<Longrightarrow> 0 \<le> s \<Longrightarrow> s < 2 ^ 32 \<Longrightarrow>
   GateSimulator_init R cls (PyInt k) (PyInt s) g
     = (Inr \<lparr>sim_class = cls, sim_n = k, sim_seed = s, sim_state = NoState\<rparr>, rng_seed R s)"
  by (simp add: GateSimulator_init_def random_seed_def)

lemma SV_init_negative_exact:
  "k < 0 \<Longrightarrow> s \<noteq> 0 \<Longrightarrow> 0 \<le> s \<Longrightarrow> s < 2 ^ 32 \<Longrightarrow> isinstance_str_or_None state \<Longrightarrow>
   GateSVSimulator_init R (PyInt k) state (PyInt s) g = (Inl ValueError, rng_seed R s)"
  by (simp add: GateSVSimulator_init_def base_init_accepts random_bitstring_def)

lemma ints_of_string_error: "ints_of_string bs = Inl e \<Longrightarrow> e = ValueError"
  by (induction bs) (auto simp: int_of_char_def Let_def split: sum.splits if_splits)

lemma Tensor_init_negative_none:
  "k < 0 \<Longrightarrow> s \<noteq> 0 \<Longrightarrow> 0 \<le> s \<Longrightarrow> s < 2 ^ 32 \<Longrightarrow>
   GateTensorSimulator_init R (PyInt k) PyNone (PyInt s) g = (Inl ValueError, rng_seed R s)"
  by (simp add: GateTensorSimulator_init_def base_init_accepts random_bitstring_def)

lemma Tensor_init_negative_str:
  assumes "k < 0" "s \<noteq> 0" "0 \<le> s" "s < 2 ^ 32" "bs \<noteq> []"
  shows "GateTensorSimulator_init R (PyInt k) (PyStr bs) (PyInt s) g
     = (Inl (if isl (ints_of_string bs) then ValueError else IndexError), rng_seed R s)"
proof (cases "ints_of_string bs")
  case (Inl e)
  then have "e = ValueError" by (rule ints_of_string_error)
  then show ?thesis using assms Inl
    by (simp add: GateTensorSimulator_init_def base_init_accepts)
next
  case (Inr idx)
  then have "length idx = length bs" by (rule ints_of_string_length)
  then obtain i idx' where "idx = i # idx'" using assms(5) by (cases idx) auto
  then show ?thesis using assms Inr
    by (simp add: GateTensorSimulator_init_def base_init_accepts)
qed

lemma init_zero_accepted:
  assumes "s \<noteq> 0" "0 \<le> s" "s < 2 ^ 32"
  shows "GateSVSimulator_init R (PyInt 0) PyNone (PyInt s) g
     = (Inr \<lparr>sim_class = GateSVSimulator, sim_n = 0, sim_seed = s,
              sim_state = MatState [[1]]\<rparr>, rng_seed R s)"
    and "GateTensorSimulator_init R (PyInt 0) PyNone (PyInt s) g
     = (Inr \<lparr>sim_class = GateTensorSimulator, sim_n = 0, sim_seed = s,
              sim_state = TenState (Scalar 1)\<rparr>, rng_seed R s)"
  using assms
  by (simp_all add: GateSVSimulator_init_def GateTensorSimulator_init_def base_init_accepts
        random_bitstring_def Let_def)

text \<open>
  C9, as the code has it. A qubit count that is not an integer makes every constructor
  fail with \<^verbatim>\<open>TypeError\<close> at once: no state is created and the generator is not
  touched. An integer is not checked for its sign: the base constructor accepts every
  integer, negative ones too, and seeds the generator (here for a seed that numpy
  accepts, \<open>0 < s < 2^32\<close>); with the count zero both engines construct a simulator.
  With a negative count the constructors of the two engines fail, but only after the
  generator has been seeded, and through numpy: the dense one with \<^verbatim>\<open>ValueError\<close>
  (a bitstring of negative length cannot be drawn), the tensor one with
  \<^verbatim>\<open>ValueError\<close> when it draws a bitstring or when a character of the given one is
  no digit, and with \<^verbatim>\<open>IndexError\<close> otherwise (the rank-0 array accepts no index).
\<close>

theorem construction_rejects_non_integer:
  "(\<not> isinstance_int n \<longrightarrow>
      GateSimulator_init R cls n seed g = (Inl TypeError, g)
      \<and> GateSVSimulator_init R n state seed g = (Inl TypeError, g)
      \<and> GateTensorSimulator_init R n state seed g = (Inl TypeError, g))
   \<and> (k < 0 \<longrightarrow>
      isl (fst (GateSVSimulator_init R (PyInt k) state seed g))
      \<and> isl (fst (GateTensorSimulator_init R (PyInt k) state seed g)))
   \<and> (s \<noteq> 0 \<and> 0 \<le> s \<and> s < 2 ^ 32 \<longrightarrow>
      GateSimulator_init R cls (PyInt k) (PyInt s) g
        = (Inr \<lparr>sim_class = cls, sim_n = k, sim_seed = s, sim_state = NoState\<rparr>, rng_seed R s)
      \<and> GateSVSimulator_init R (PyInt 0) PyNone (PyInt s) g
        = (Inr \<lparr>sim_class = GateSVSimulator, sim_n = 0, sim_seed = s,
                 sim_state = MatState [[1]]\<rparr>, rng_seed R s)
      \<and> GateTensorSimulator_init R (PyInt 0) PyNone (PyInt s) g
        = (Inr \<lparr>sim_class = GateTensorSimulator, sim_n = 0, sim_seed = s,
                 sim_state = TenState (Scalar 1)\<rparr>, rng_seed R s))
   \<and> (k < 0 \<and> s \<noteq> 0 \<and> 0 \<le> s \<and> s < 2 ^ 32 \<longrightarrow>
      (isinstance_str_or_None state \<longrightarrow>
         GateSVSimulator_init R (PyInt k) state (PyInt s) g = (Inl ValueError, rng_seed R s))
      \<and> GateTensorSimulator_init R (PyInt k) PyNone (PyInt s) g
          = (Inl ValueError, rng_seed R s)
      \<and> (bs \<noteq> [] \<longrightarrow>
         GateTensorSimulator_init R (PyInt k) (PyStr bs) (PyInt s) g
          = (Inl (if isl (ints_of_string bs) then ValueError else IndexError), rng_seed R s)))"
  using SV_init_negative[of k R state seed g] Tensor_init_negative[of k R state seed g]
    base_init_accepts[of s R cls k g] init_zero_accepted[of s R g]
    SV_init_negative_exact[of k s state R g] Tensor_init_negative_none[of k s R g]
    Tensor_init_negative_str[of k s bs R g]
  by (simp add: base_init_non_int GateSVSimulator_init_def GateTensorSimulator_init_def)

theorem construction_rejects_non_integer_witness:
  "(GateSimulator_init shift_rng GateSimulator (PyFloat 2) (PyInt 7) 5 = (Inl TypeError, 5)
      \<and> GateSVSimulator_init shift_rng (PyFloat 2) PyNone (PyInt 7) 5 = (Inl TypeError, 5)
      \<and> GateTensorSimulator_init shift_rng (PyFloat 2) PyNone (PyInt 7) 5 = (Inl TypeError, 5))
   \<and> (isl (fst (GateSVSimulator_init shift_rng (PyInt (- 1)) PyNone (PyInt 7) 5))
      \<and> isl (fst (GateTensorSimulator_init shift_rng (PyInt (- 1)) PyNone (PyInt 7) 5)))
   \<and> (GateSimulator_init shift_rng GateSimulator (PyInt (- 1)) (PyInt 7) 5
        = (Inr \<lparr>sim_class = GateSimulator, sim_n = - 1, sim_seed = 7, sim_state = NoState\<rparr>, 7)
      \<and> GateSVSimulator_init shift_rng (PyInt 0) PyNone (PyInt 7) 5
        = (Inr \<lparr>sim_class = GateSVSimulator, sim_n = 0, sim_seed = 7,
                 sim_state = MatState [[1]]\<rparr>, 7)
      \<and> GateTensorSimulator_init shift_rng (PyInt 0) PyNone (PyInt 7) 5
        = (Inr \<lparr>sim_class = GateTensorSimulator, sim_n = 0, sim_seed = 7,
                 sim_state = TenState (Scalar 1)\<rparr>, 7))
   \<and> (GateSVSimulator_init shift_rng (PyInt (- 1)) PyNone (PyInt 7) 5 = (Inl ValueError, 7)
      \<and> GateTensorSimulator_init shift_rng (PyInt (- 1)) PyNone (PyInt 7) 5
          = (Inl ValueError, 7)
      \<and> GateTensorSimulator_init shift_rng (PyInt (- 1)) (PyStr ''0'') (PyInt 7) 5
          = (Inl IndexError, 7))"
proof -
  have r: "rng_seed shift_rng 7 = 7"
    by (simp add: shift_rng_def)
  show ?thesis
    using construction_rejects_non_integer
            [of "PyFloat 2" shift_rng GateSimulator "PyInt 7" "5::nat" PyNone "- 1" 7 "''0''"]
    by (simp add: int_of_char_def r)
qed

text \<open>
  C9, as the claim states it, fails at zero: both engines construct a simulator of zero
  qubits, the dense one with the one-entry state.
\<close>

theorem zero_qubits_accepted_counterexample:
  "GateSVSimulator_init shift_rng (PyInt 0) PyNone (PyInt 1) 0
     = (Inr \<lparr>sim_class = GateSVSimulator, sim_n = 0, sim_seed = 1,
              sim_state = MatState [[1]]\<rparr>, 1)
   \<and> GateTensorSimulator_init shift_rng (PyInt 0) PyNone (PyInt 1) 0
     = (Inr \<lparr>sim_class = GateTensorSimulator, sim_n = 0, sim_seed = 1,
              sim_state = TenState (Scalar 1)\<rparr>, 1)"
  by (simp add: GateSVSimulator_init_def GateTensorSimulator_init_def GateSimulator_init_def
       random_seed_def random_bitstring_def shift_rng_def Let_def)


section \<open>The seed\<close>

text \<open>With a seed other than zero the constructors do not read the generator they find:
  what they return, and the generator they leave after a successful construction, are
  functions of the arguments.\<close>

lemma base_init_seeded:
  "s \<noteq> 0 \<Longrightarrow>
   fst (GateSimulator_init R cls n (PyInt s) g) = fst (GateSimulator_init R cls n (PyInt s) g')
   \<and> (\<not> isl (fst (GateSimulator_init R cls n (PyInt s) g)) \<longrightarrow>
        snd (GateSimulator_init R cls n (PyInt s) g) = snd (GateSimulator_init R cls n (PyInt s) g'))"
  unfolding GateSimulator_init_def
  by (auto split: sum.splits prod.splits pyval.splits)

lemma construct_seeded_deterministic:
  assumes "s \<noteq> 0"
  shows "fst (construct R cls n state (PyInt s) g) = fst (construct R cls n state (PyInt s) g')
   \<and> (\<not> isl (fst (construct R cls n state (PyInt s) g)) \<longrightarrow>
        construct R cls n state (PyInt s) g = construct R cls n state (PyInt s) g')"
proof -
  obtain r h where a: "GateSimulator_init R cls n (PyInt s) g = (r, h)"
    by (cases "GateSimulator_init R cls n (PyInt s) g")
  obtain r' h' where b: "GateSimulator_init R cls n (PyInt s) g' = (r', h')"
    by (cases "GateSimulator_init R cls n (PyInt s) g'")
  have rr: "r' = r" and hh: "\<not> isl r \<Longrightarrow> h' = h"
    using base_init_seeded[OF assms, of R cls n g g'] a b by auto
  show ?thesis
  proof (cases r)
    case (Inl e)
    then show ?thesis using a b rr
      by (cases cls)
         (simp_all add: construct_def GateSVSimulator_init_def GateTensorSimulator_init_def)
  next
    case (Inr self)
    then have "h' = h" using hh by simp
    then show ?thesis using a b rr
      by (cases cls)
         (simp_all add: construct_def GateSVSimulator_init_def GateTensorSimulator_init_def)
  qed
qed

text \<open>
  C7 at the seed zero. \<^verbatim>\<open>seed if seed else np.random.randint(0, 1000000)\<close> takes the
  integer zero for no seed: the seed is then drawn from the generator as the constructor
  finds it. Two constructions with the same arguments \<open>n = 2\<close>, no bitstring, seed
  \<open>0\<close>, from the generator states \<open>6\<close> and \<open>1\<close> (the second is the state the first
  construction leaves behind) store different seeds and different states.
\<close>

theorem seed_zero_construction_depends_on_generator:
  "GateSVSimulator_init shift_rng (PyInt 2) PyNone (PyInt 0) 6
     = (Inr \<lparr>sim_class = GateSVSimulator, sim_n = 2, sim_seed = 6,
              sim_state = MatState [[0], [1], [0], [0]]\<rparr>, 1)
   \<and> GateSVSimulator_init shift_rng (PyInt 2) PyNone (PyInt 0) 1
     = (Inr \<lparr>sim_class = GateSVSimulator, sim_n = 2, sim_seed = 1,
              sim_state = MatState [[0], [0], [1], [0]]\<rparr>, 0)"
  by (simp add: GateSVSimulator_init_def GateSimulator_init_def
       random_seed_def random_bitstring_def random_randint_def shift_rng_def choice_bits_numeral
       is_bit_def kron_def one_ket_def zero_ket_def Let_def)

section \<open>One round on both engines\<close>

lemma replay_randint_2: "replay_randint 0 2 (x # xs) = (int (x mod 2), xs)"
  by (simp add: replay_randint_def Let_def numeral_2_eq_2)

lemma draw_SV_mt:
  "draw_control_target (replay_rng numpy_seed_stream) 2
     [3093770124, 4005303368, 491263, 550290313, 1298508491, 4290846341, 630311759,
      1013994432]
   = Some (Inr (0, 1, [550290313, 1298508491, 4290846341, 630311759, 1013994432]))"
  by (simp add: draw_control_target_def random_randint_def replay_rng_def replay_randint_2
        redraw_target.simps)

lemma draw_Tensor_mt:
  "draw_control_target (replay_rng numpy_seed_stream) 2 mt19937_seed_1
   = Some (Inr (1, 0, [4005303368, 491263, 550290313, 1298508491, 4290846341, 630311759,
                       1013994432]))"
  by (simp add: draw_control_target_def random_randint_def replay_rng_def replay_randint_2
        redraw_target.simps mt19937_seed_1_def)

lemma CX_2_0_1:
  "sim_n self = 2 \<Longrightarrow>
   CX self 0 1 = (Inr [[1, 0, 0, 0], [0, 0, 0, 1], [0, 0, 1, 0], [0, 1, 0, 0]], self)"
  by (simp add: CX_unfold replicate_numeral kronecker_product_def kron_def madd_def
        I_gate_def X_gate_def P0_mat_def P1_mat_def)

lemma CX_2_1_0:
  "sim_n self = 2 \<Longrightarrow>
   CX self 1 0 = (Inr [[1, 0, 0, 0], [0, 1, 0, 0], [0, 0, 0, 1], [0, 0, 1, 0]], self)"
  by (simp add: CX_unfold replicate_numeral kronecker_product_def kron_def madd_def
        I_gate_def X_gate_def P0_mat_def P1_mat_def)

lemma ops_2: "kronecker_product [H_gate, X_gate] =
   [[0, 1 / sqrt 2, 0, 1 / sqrt 2], [1 / sqrt 2, 0, 1 / sqrt 2, 0],
    [0, 1 / sqrt 2, 0, - (1 / sqrt 2)], [1 / sqrt 2, 0, - (1 / sqrt 2), 0]]"
  by (simp add: kronecker_product_def kron_def H_gate_eval X_gate_def)

lemma SV_init_mt:
  "GateSVSimulator_init (replay_rng numpy_seed_stream) (PyInt 2) (PyStr ''00'') (PyInt 1) []
   = (Inr \<lparr>sim_class = GateSVSimulator, sim_n = 2, sim_seed = 1,
            sim_state = MatState [[1], [0], [0], [0]]\<rparr>,
      [3093770124, 4005303368, 491263, 550290313, 1298508491, 4290846341, 630311759,
       1013994432])"
  by (simp add: GateSVSimulator_init_def GateSimulator_init_def
       random_seed_def random_bitstring_def replay_rng_def numpy_seed_stream_def
       mt19937_seed_1_def choice_bits_numeral is_bit_def kron_def one_ket_def zero_ket_def
       Let_def)

lemma Tensor_init_mt:
  "GateTensorSimulator_init (replay_rng numpy_seed_stream) (PyInt 2) (PyStr ''00'') (PyInt 1) []
   = (Inr \<lparr>sim_class = GateTensorSimulator, sim_n = 2, sim_seed = 1,
        sim_state = TenState (Axis [Axis [Scalar 1, Scalar 0], Axis [Scalar 0, Scalar 0]])\<rparr>,
      mt19937_seed_1)"
  by (simp add: GateTensorSimulator_init_def GateSimulator_init_def
       random_seed_def replay_rng_def numpy_seed_stream_def int_of_char_def replicate_numeral
       Let_def)

lemma SV_round_mt:
  "one_round (replay_rng numpy_seed_stream)
     \<lparr>sim_class = GateSVSimulator, sim_n = 2, sim_seed = 1,
        sim_state = MatState [[1], [0], [0], [0]]\<rparr>
     [3093770124, 4005303368, 491263, 550290313, 1298508491, 4290846341, 630311759,
      1013994432]
   = Some (Inr (), \<lparr>sim_class = GateSVSimulator, sim_n = 2, sim_seed = 1,
        sim_state = MatState [[0], [1 / sqrt 2], [0], [1 / sqrt 2]]\<rparr>,
      [550290313, 1298508491, 4290846341, 630311759, 1013994432])"
  by (simp add: one_round_def make_operations_def make_operations_SV_def draw_SV_mt CX_2_0_1
        ops_2 apply_operations_SV_def matmul_def mm_def ncols_def nrows_def col_def dot_def
        Let_def)

lemma einsum_X1:
  "einsum [97, 99] [98, 99] [98, 97] X_gate
     (Axis [Axis [Scalar 1, Scalar 0], Axis [Scalar 0, Scalar 0]])
   = Inr (Axis [Axis [Scalar 0, Scalar 1], Axis [Scalar 0, Scalar 0]])"
  by (simp add: einsum_def Let_def is_letter_def nrows_def ncols_def X_gate_def dim_of_def
        upt_numeral_2)

lemma einsum_H0:
  "einsum [97, 98] [98, 99] [97, 99] H_gate
     (Axis [Axis [Scalar 0, Scalar 1], Axis [Scalar 0, Scalar 0]])
   = Inr (Axis [Axis [Scalar 0, Scalar (1 / sqrt 2)], Axis [Scalar 0, Scalar (1 / sqrt 2)]])"
  by (simp add: einsum_def Let_def is_letter_def nrows_def ncols_def H_gate_eval dim_of_def
        upt_numeral_2)

lemma Tensor_round_mt:
  "one_round (replay_rng numpy_seed_stream)
     \<lparr>sim_class = GateTensorSimulator, sim_n = 2, sim_seed = 1,
        sim_state = TenState (Axis [Axis [Scalar 1, Scalar 0], Axis [Scalar 0, Scalar 0]])\<rparr>
     mt19937_seed_1
   = Some (Inr (), \<lparr>sim_class = GateTensorSimulator, sim_n = 2, sim_seed = 1,
        sim_state = TenState (Axis [Axis [Scalar 0, Scalar (1 / sqrt 2)],
                                    Axis [Scalar (1 / sqrt 2), Scalar 0]])\<rparr>,
      [4005303368, 491263, 550290313, 1298508491, 4290846341, 630311759, 1013994432])"
  by (simp add: one_round_def make_operations_def make_operations_Tensor_def draw_Tensor_mt
        CX_2_1_0 apply_operations_Tensor_def ein_step_def upt_numeral_2 einsum_X1 einsum_H0
        matvec_def reshape_def ncols_def dot_def Let_def reshape2_numeral)

text \<open>
  C1 on a concrete run, with the stream numpy produces. Both engines are constructed with
  \<open>n = 2\<close>, the bitstring \<^verbatim>\<open>'00'\<close> and the seed \<open>1\<close>, and run one round. After
  \<^verbatim>\<open>np.random.seed(1)\<close> the lowest bits of the outputs are \<open>1, 1, 0, 0, 1, \<dots>\<close>.
  The dense constructor draws a random bitstring although one is given and so consumes
  two outputs; its round reads control 0, target 0, and redraws target 1. The tensor
  constructor draws nothing; its round reads control 1, target 1, and redraws target 0.
  The final amplitudes are \<open>[0, 1/\<surd>2, 0, 1/\<surd>2]\<close> on the dense engine and
  \<open>[0, 1/\<surd>2, 1/\<surd>2, 0]\<close> on the tensor engine.
\<close>

theorem cross_model_round_differs:
  "map_option (map_sum id (state_amplitudes \<circ> sim_state))
     (construct_and_round (replay_rng numpy_seed_stream) GateSVSimulator
        (PyInt 2) (PyStr ''00'') (PyInt 1) [])
     = Some (Inr [0, 1 / sqrt 2, 0, 1 / sqrt 2])
   \<and> map_option (map_sum id (state_amplitudes \<circ> sim_state))
     (construct_and_round (replay_rng numpy_seed_stream) GateTensorSimulator
        (PyInt 2) (PyStr ''00'') (PyInt 1) [])
     = Some (Inr [0, 1 / sqrt 2, 1 / sqrt 2, 0])"
  by (simp add: construct_and_round_def construct_def SV_init_mt Tensor_init_mt
        SV_round_mt Tensor_round_mt)

section \<open>The rendering\<close>

lemma SV_init_1:
  "GateSVSimulator_init shift_rng (PyInt 1) (PyStr ''1'') (PyInt 1) 0
   = (Inr \<lparr>sim_class = GateSVSimulator, sim_n = 1, sim_seed = 1,
            sim_state = MatState [[0], [1]]\<rparr>, 0)"
  by (simp add: GateSVSimulator_init_def GateSimulator_init_def
       random_seed_def random_bitstring_def shift_rng_def
       is_bit_def kron_def one_ket_def zero_ket_def Let_def)

lemma Tensor_init_1:
  "GateTensorSimulator_init shift_rng (PyInt 1) (PyStr ''1'') (PyInt 1) 0
   = (Inr \<lparr>sim_class = GateTensorSimulator, sim_n = 1, sim_seed = 1,
            sim_state = TenState (Axis [Scalar 0, Scalar 1])\<rparr>, 1)"
  by (simp add: GateTensorSimulator_init_def GateSimulator_init_def
       random_seed_def shift_rng_def int_of_char_def replicate_numeral Let_def)

lemma SV_round_1:
  "one_round R \<lparr>sim_class = GateSVSimulator, sim_n = 1, sim_seed = s,
                 sim_state = MatState [[0], [1]]\<rparr> g
   = Some (Inr (), \<lparr>sim_class = GateSVSimulator, sim_n = 1, sim_seed = s,
        sim_state = MatState [[1 / sqrt 2], [- (1 / sqrt 2)]]\<rparr>, g)"
  by (simp add: one_round_def make_operations_def make_operations_SV_def
        apply_operations_SV_def matmul_def mm_def ncols_def nrows_def col_def dot_def Let_def
        I_gate_def H_gate_eval)

lemma einsum_H_1:
  "einsum [97, 98] [98] [97] H_gate (Axis [Scalar 0, Scalar 1])
   = Inr (Axis [Scalar (1 / sqrt 2), Scalar (- (1 / sqrt 2))])"
  by (simp add: einsum_def Let_def is_letter_def nrows_def ncols_def H_gate_eval dim_of_def
        upt_numeral_2)

lemma Tensor_round_1:
  "one_round R \<lparr>sim_class = GateTensorSimulator, sim_n = 1, sim_seed = s,
                 sim_state = TenState (Axis [Scalar 0, Scalar 1])\<rparr> g
   = Some (Inr (), \<lparr>sim_class = GateTensorSimulator, sim_n = 1, sim_seed = s,
        sim_state = TenState (Axis [Scalar (1 / sqrt 2), Scalar (- (1 / sqrt 2))])\<rparr>, g)"
  by (simp add: one_round_def make_operations_def make_operations_Tensor_def
        apply_operations_Tensor_def einsum_H_1 I_gate_def
        matvec_def reshape_def ncols_def dot_def Let_def)

lemma braket_SV_1:
  "state_to_braket \<lparr>sim_class = GateSVSimulator, sim_n = 1, sim_seed = s,
        sim_state = MatState [[1 / sqrt 2], [- (1 / sqrt 2)]]\<rparr>
   = Inr (''(0.707)|0'' @ ket_close)"
  using inv_sqrt2_gt neg_inv_sqrt2
  by (simp add: state_to_braket_def state_to_braket_SV_def where_nonzero_rows_def upt_numeral_2
      braket_term_def fmt3_inv_sqrt2 to_bin_def zfill_def digit_char_def Let_def)

lemma braket_Tensor_1:
  "state_to_braket \<lparr>sim_class = GateTensorSimulator, sim_n = 1, sim_seed = s,
        sim_state = TenState (Axis [Scalar (1 / sqrt 2), Scalar (- (1 / sqrt 2))])\<rparr>
   = Inr (''(0.707)|0'' @ ket_close)"
  using inv_sqrt2_gt
  by (simp add: state_to_braket_def state_to_braket_Tensor_def
      braket_term_def fmt3_inv_sqrt2 digit_char_def)

text \<open>The scenario of the specification: four qubits, the bitstring \<^verbatim>\<open>'0000'\<close>. The
  rendering of the initial state of the dense engine is \<^verbatim>\<open>(1.000)|0000\<close> followed by
  the closing bracket.\<close>

lemma braket_SV_0000:
  "state_to_braket \<lparr>sim_class = GateSVSimulator, sim_n = 4, sim_seed = s,
        sim_state = MatState (unit_column 16 0)\<rparr>
   = Inr (''(1.000)|0000'' @ ket_close)"
  by (simp add: state_to_braket_def state_to_braket_SV_def where_nonzero_rows_def
      unit_column_def braket_term_def fmt3_one to_bin_def zfill_def
      upt_rec[of _ "numeral k" for k] digit_char_def replicate_numeral)

text \<open>
  C5 at a negative amplitude. One qubit, the bitstring \<^verbatim>\<open>'1'\<close>, one round: the state
  is \<open>(|0\<rangle> - |1\<rangle>) / \<surd>2\<close> on both engines. The amplitude of \<open>|1\<rangle>\<close> has
  magnitude \<open>0.707\<close>, far above the threshold, and is left out of the rendering: the
  dense engine tests \<^verbatim>\<open>amplitude > 1e-10\<close> on the signed value, the tensor engine
  selects \<^verbatim>\<open>self.state > 0\<close>. The branch that would join a term with \<^verbatim>\<open>-\<close> is
  never taken.
\<close>

theorem braket_omits_negative_amplitude:
  "construct_and_round shift_rng GateSVSimulator (PyInt 1) (PyStr ''1'') (PyInt 1) 0
     = Some (Inr \<lparr>sim_class = GateSVSimulator, sim_n = 1, sim_seed = 1,
                   sim_state = MatState [[1 / sqrt 2], [- (1 / sqrt 2)]]\<rparr>)
   \<and> state_to_braket \<lparr>sim_class = GateSVSimulator, sim_n = 1, sim_seed = 1,
                        sim_state = MatState [[1 / sqrt 2], [- (1 / sqrt 2)]]\<rparr>
     = Inr (''(0.707)|0'' @ ket_close)
   \<and> construct_and_round shift_rng GateTensorSimulator (PyInt 1) (PyStr ''1'') (PyInt 1) 0
     = Some (Inr \<lparr>sim_class = GateTensorSimulator, sim_n = 1, sim_seed = 1,
                   sim_state = TenState (Axis [Scalar (1 / sqrt 2), Scalar (- (1 / sqrt 2))])\<rparr>)
   \<and> state_to_braket \<lparr>sim_class = GateTensorSimulator, sim_n = 1, sim_seed = 1,
                        sim_state = TenState (Axis [Scalar (1 / sqrt 2), Scalar (- (1 / sqrt 2))])\<rparr>
     = Inr (''(0.707)|0'' @ ket_close)"
  by (simp add: construct_and_round_def construct_def SV_init_1 Tensor_init_1
        SV_round_1 Tensor_round_1 braket_SV_1 braket_Tensor_1)


section \<open>Matrix algebra on lists of rows\<close>

lemma matD: "mat r c A \<Longrightarrow> length A = r" "mat r c A \<Longrightarrow> i < r \<Longrightarrow> length (A ! i) = c"
  by (auto simp: mat_def list_all_length)

lemma matI: "length A = r \<Longrightarrow> (\<And>i. i < r \<Longrightarrow> length (A ! i) = c) \<Longrightarrow> mat r c A"
  by (auto simp: mat_def list_all_length)

lemma mat_eqI:
  assumes "mat r c A" "mat r c B" "\<And>i j. i < r \<Longrightarrow> j < c \<Longrightarrow> A ! i ! j = B ! i ! j"
  shows "A = B"
proof (rule nth_equalityI)
  show "length A = length B" using assms by (simp add: matD)
  fix i assume "i < length A"
  then have i: "i < r" using assms by (simp add: matD)
  show "A ! i = B ! i"
    by (rule nth_equalityI) (use assms i in \<open>auto simp: matD\<close>)
qed

lemma ncols_mat: "mat r c A \<Longrightarrow> 0 < r \<Longrightarrow> ncols A = c"
  by (cases A) (auto simp: mat_def ncols_def)

lemma nth_concat_uniform:
  assumes "\<And>xs. xs \<in> set xss \<Longrightarrow> length xs = n" "i < length xss * n"
  shows "concat xss ! i = xss ! (i div n) ! (i mod n)"
  using assms
proof (induction xss arbitrary: i)
  case Nil
  then show ?case by simp
next
  case (Cons x xss)
  have n: "0 < n" using Cons.prems(2) by (cases n) auto
  have lx: "length x = n" using Cons.prems(1) by simp
  show ?case
  proof (cases "i < n")
    case True
    then show ?thesis by (simp add: nth_append lx)
  next
    case False
    then have ge: "n \<le> i" by simp
    have "i - n < length xss * n" using Cons.prems(2) ge by simp
    then have "concat xss ! (i - n) = xss ! ((i - n) div n) ! ((i - n) mod n)"
      using Cons.IH Cons.prems(1) by simp
    moreover have "i div n = Suc ((i - n) div n)" using ge n by (simp add: le_div_geq)
    moreover have "i mod n = (i - n) mod n" using ge by (simp add: le_mod_geq)
    ultimately show ?thesis using False by (simp add: nth_append lx)
  qed
qed

lemma length_concat_uniform:
  "(\<And>xs. xs \<in> set xss \<Longrightarrow> length xs = n) \<Longrightarrow> length (concat xss) = length xss * n"
  by (induction xss) auto

lemma kron_row_length:
  assumes "mat ra ca A" "mat rb cb B"
  shows "length (kron A B) = ra * rb"
  unfolding kron_def using assms
  by (subst length_concat_uniform[where n=rb]) (auto simp: matD)

lemma kron_row:
  assumes "mat ra ca A" "mat rb cb B" "i < ra * rb"
  shows "kron A B ! i = concat (map (\<lambda>a. map (\<lambda>b. a * b) (B ! (i mod rb))) (A ! (i div rb)))"
proof -
  have rb: "0 < rb" using assms(3) by (cases rb) auto
  have d: "i div rb < ra" using assms(3) rb by (simp add: less_mult_imp_div_less)
  have m: "i mod rb < rb" using rb by simp
  have "kron A B ! i = map (\<lambda>ra. map (\<lambda>rb. concat (map (\<lambda>a. map (\<lambda>b. a * b) rb) ra)) B) A ! (i div rb) ! (i mod rb)"
    unfolding kron_def using assms
    by (intro nth_concat_uniform) (auto simp: matD)
  then show ?thesis using d m assms by (simp add: matD)
qed

lemma kron_nth:
  assumes "mat ra ca A" "mat rb cb B" "i < ra * rb" "j < ca * cb"
  shows "kron A B ! i ! j = A ! (i div rb) ! (j div cb) * B ! (i mod rb) ! (j mod cb)"
proof -
  have rb: "0 < rb" using assms(3) by (cases rb) auto
  have cb: "0 < cb" using assms(4) by (cases cb) auto
  have d: "i div rb < ra" using assms(3) rb by (simp add: less_mult_imp_div_less)
  have m: "i mod rb < rb" using rb by simp
  have dj: "j div cb < ca" using assms(4) cb by (simp add: less_mult_imp_div_less)
  have mj: "j mod cb < cb" using cb by simp
  have la: "length (A ! (i div rb)) = ca" using assms d by (simp add: matD)
  have lb: "length (B ! (i mod rb)) = cb" using assms m by (simp add: matD)
  have "kron A B ! i ! j
        = map (\<lambda>a. map (\<lambda>b. a * b) (B ! (i mod rb))) (A ! (i div rb)) ! (j div cb) ! (j mod cb)"
    unfolding kron_row[OF assms(1,2,3)] using la lb assms(4)
    by (intro nth_concat_uniform) auto
  then show ?thesis using dj mj la lb by simp
qed

lemma kron_mat:
  assumes "mat ra ca A" "mat rb cb B"
  shows "mat (ra * rb) (ca * cb) (kron A B)"
proof (rule matI)
  show "length (kron A B) = ra * rb" by (rule kron_row_length[OF assms])
  fix i assume i: "i < ra * rb"
  have rb: "0 < rb" using i by (cases rb) auto
  have d: "i div rb < ra" using i rb by (simp add: less_mult_imp_div_less)
  have m: "i mod rb < rb" using rb by simp
  have la: "length (A ! (i div rb)) = ca" using assms d by (simp add: matD)
  have lb: "length (B ! (i mod rb)) = cb" using assms m by (simp add: matD)
  show "length (kron A B ! i) = ca * cb"
    unfolding kron_row[OF assms i]
    by (subst length_concat_uniform[where n=cb]) (auto simp: la lb)
qed


lemma conj_like_id: "conj_like (\<lambda>x. x)"
  by (simp add: conj_like_def)


lemma conj_like_sum:
  assumes "conj_like cj"
  shows "finite S \<Longrightarrow> cj (\<Sum>i\<in>S. f i) = (\<Sum>i\<in>S. cj (f i))"
  by (induction S rule: finite_induct) (use assms in \<open>auto simp: conj_like_def\<close>)

lemma dot_sum:
  assumes "length u = length v"
  shows "dot u v = (\<Sum>l<length u. u ! l * v ! l)"
proof -
  have "dot u v = (\<Sum>i = 0..<length (map2 (*) u v). map2 (*) u v ! i)"
    unfolding dot_def by (rule sum_list_sum_nth)
  also have "\<dots> = (\<Sum>i = 0..<length u. u ! i * v ! i)"
    using assms by (intro sum.cong) auto
  finally show ?thesis by (simp add: atLeast0LessThan)
qed

lemma mm_nth:
  assumes "mat r k A" "mat k c B" "0 < k" "i < r" "j < c"
  shows "mm A B ! i ! j = (\<Sum>l<k. A ! i ! l * B ! l ! j)"
proof -
  have nc: "ncols B = c" using assms by (simp add: ncols_mat)
  have la: "length (A ! i) = k" using assms by (simp add: matD)
  have lc: "length (col B j) = k" using assms by (simp add: col_def matD)
  have "mm A B ! i ! j = dot (A ! i) (col B j)"
    using assms nc by (simp add: mm_def matD)
  also have "\<dots> = (\<Sum>l<k. A ! i ! l * col B j ! l)"
    using dot_sum[of "A ! i" "col B j"] la lc by simp
  also have "\<dots> = (\<Sum>l<k. A ! i ! l * B ! l ! j)"
    using assms by (intro sum.cong) (auto simp: col_def matD)
  finally show ?thesis .
qed

lemma mm_mat:
  assumes "mat r k A" "mat k c B" "0 < k"
  shows "mat r c (mm A B)"
  using assms by (intro matI) (auto simp: mm_def matD ncols_mat)

lemma matmul_ok:
  assumes "mat r k A" "mat k c B" "0 < r"
  shows "matmul A B = Inr (mm A B)"
  using assms by (simp add: matmul_def nrows_def ncols_mat matD)

lemma unitary_inner:
  fixes M :: "'a::comm_ring_1 mat"
  assumes U: "unitary_on cj m M" and H: "conj_like cj"
  shows "(\<Sum>i<m. cj (\<Sum>l<m. M ! i ! l * u l) * (\<Sum>l<m. M ! i ! l * v l))
         = (\<Sum>l<m. cj (u l) * v l)"
proof -
  have mult: "\<And>x y. cj (x * y) = cj x * cj y" using H by (simp add: conj_like_def)
  have "(\<Sum>i<m. cj (\<Sum>l<m. M ! i ! l * u l) * (\<Sum>l<m. M ! i ! l * v l))
        = (\<Sum>i<m. (\<Sum>l<m. cj (M ! i ! l) * cj (u l)) * (\<Sum>l'<m. M ! i ! l' * v l'))"
    by (simp add: conj_like_sum[OF H] mult)
  also have "\<dots> = (\<Sum>i<m. \<Sum>l<m. \<Sum>l'<m. (cj (M ! i ! l) * cj (u l)) * (M ! i ! l' * v l'))"
    by (simp only: sum_product)
  also have "\<dots> = (\<Sum>i<m. \<Sum>l<m. \<Sum>l'<m. (cj (u l) * v l') * (cj (M ! i ! l) * M ! i ! l'))"
    by (intro sum.cong refl) (simp add: mult_ac)
  also have "\<dots> = (\<Sum>l<m. \<Sum>i<m. \<Sum>l'<m. (cj (u l) * v l') * (cj (M ! i ! l) * M ! i ! l'))"
    by (rule sum.swap)
  also have "\<dots> = (\<Sum>l<m. \<Sum>l'<m. \<Sum>i<m. (cj (u l) * v l') * (cj (M ! i ! l) * M ! i ! l'))"
    by (intro sum.cong refl sum.swap)
  also have "\<dots> = (\<Sum>l<m. \<Sum>l'<m. (cj (u l) * v l') * (\<Sum>i<m. cj (M ! i ! l) * M ! i ! l'))"
    by (simp add: sum_distrib_left)
  also have "\<dots> = (\<Sum>l<m. \<Sum>l'<m. (cj (u l) * v l') * (if l = l' then 1 else 0))"
    using U by (intro sum.cong refl) (simp add: unitary_on_def)
  also have "\<dots> = (\<Sum>l<m. \<Sum>l'<m. (if l' = l then cj (u l) * v l' else 0))"
    by (intro sum.cong refl) auto
  also have "\<dots> = (\<Sum>l<m. cj (u l) * v l)"
    by (intro sum.cong refl) (simp add: sum.delta)
  finally show ?thesis .
qed

lemma unitary_mm:
  fixes A :: "'a::comm_ring_1 mat"
  assumes A: "unitary_on cj m A" and B: "unitary_on cj m B" and H: "conj_like cj" and m: "0 < m"
  shows "unitary_on cj m (mm A B)"
  unfolding unitary_on_def
proof (intro conjI allI impI)
  have mA: "mat m m A" and mB: "mat m m B" using A B by (simp_all add: unitary_on_def)
  show "mat m m (mm A B)" using mA mB m by (rule mm_mat)
  fix i j assume i: "i < m" and j: "j < m"
  have "(\<Sum>l<m. cj (mm A B ! l ! i) * mm A B ! l ! j)
        = (\<Sum>l<m. cj (\<Sum>a<m. A ! l ! a * B ! a ! i) * (\<Sum>a<m. A ! l ! a * B ! a ! j))"
    using mA mB m i j by (intro sum.cong refl) (simp add: mm_nth)
  also have "\<dots> = (\<Sum>a<m. cj (B ! a ! i) * B ! a ! j)"
    by (rule unitary_inner[OF A H])
  also have "\<dots> = (if i = j then 1 else 0)"
    using B i j by (simp add: unitary_on_def)
  finally show "(\<Sum>l<m. cj (mm A B ! l ! i) * mm A B ! l ! j) = (if i = j then 1 else 0)" .
qed


lemma kp_Nil: "kronecker_product [] = [[1]]"
  by (simp add: kronecker_product_def)

lemma kp_snoc: "kronecker_product (Ms @ [A]) = kron (kronecker_product Ms) A"
  by (simp add: kronecker_product_def)

lemma mat_one: "mat (Suc 0) (Suc 0) [[x]]"
  by (simp add: mat_def)

lemma kp_mat:
  assumes "\<And>M. M \<in> set Ms \<Longrightarrow> mat 2 2 M"
  shows "mat (2 ^ length Ms) (2 ^ length Ms) (kronecker_product Ms)"
  using assms
proof (induction Ms rule: rev_induct)
  case Nil
  show ?case by (simp add: kp_Nil mat_one)
next
  case (snoc A Ms)
  have "mat (2 ^ length Ms * 2) (2 ^ length Ms * 2) (kron (kronecker_product Ms) A)"
    using snoc by (intro kron_mat) auto
  then show ?case by (simp add: kp_snoc mult.commute)
qed



lemma kp_entry:
  fixes Ms :: "'a::comm_semiring_1 mat list"
  assumes "\<And>M. M \<in> set Ms \<Longrightarrow> mat 2 2 M" "i < 2 ^ length Ms" "j < 2 ^ length Ms"
  shows "kronecker_product Ms ! i ! j
         = (\<Prod>q<length Ms. Ms ! (length Ms - 1 - q) ! bitn i q ! bitn j q)"
  using assms
proof (induction Ms arbitrary: i j rule: rev_induct)
  case Nil
  then show ?case by (simp add: kp_Nil)
next
  case (snoc A Ms)
  let ?n = "length Ms"
  have mK: "mat (2 ^ ?n) (2 ^ ?n) (kronecker_product Ms)"
    using snoc.prems(1) by (intro kp_mat) auto
  have mA: "mat 2 2 A" using snoc.prems(1) by simp
  have i: "i < 2 ^ ?n * 2" and j: "j < 2 ^ ?n * 2" using snoc.prems by simp_all
  have di: "i div 2 < 2 ^ ?n" "j div 2 < 2 ^ ?n" using i j by auto
  have "kronecker_product (Ms @ [A]) ! i ! j
        = kronecker_product Ms ! (i div 2) ! (j div 2) * A ! (i mod 2) ! (j mod 2)"
    unfolding kp_snoc using kron_nth[OF mK mA i j] .
  also have "kronecker_product Ms ! (i div 2) ! (j div 2)
        = (\<Prod>q<?n. Ms ! (?n - 1 - q) ! bitn (i div 2) q ! bitn (j div 2) q)"
    using snoc.IH[OF _ di] snoc.prems(1) by simp
  also have "\<dots> = (\<Prod>q<?n. (Ms @ [A]) ! (length (Ms @ [A]) - 1 - Suc q) ! bitn i (Suc q) ! bitn j (Suc q))"
    by (intro prod.cong refl) (auto simp: nth_append bitn_def div_mult2_eq)
  finally show ?case
    by (simp add: prod.lessThan_Suc_shift bitn_def mult.commute del: prod.lessThan_Suc)
qed

lemma prod_indicator:
  "(\<Prod>q<(n::nat). (if P q then 1 else 0)) = (if \<forall>q<n. P q then 1 else (0::'a::comm_semiring_1))"
  by (induction n) (auto simp: less_Suc_eq)

lemma bitn_bit: "bitn i q = (if bit i q then 1 else 0)"
  by (auto simp: bitn_def bit_iff_odd odd_iff_mod_2_eq_one)

lemma not_bit_small: "(i::nat) < 2 ^ q \<Longrightarrow> \<not> bit i q"
  by (simp add: bit_iff_odd)

lemma bits_eq:
  assumes "(i::nat) < 2 ^ N" "j < 2 ^ N"
  shows "i = j \<longleftrightarrow> (\<forall>q<N. bit i q = bit j q)"
proof
  assume a: "\<forall>q<N. bit i q = bit j q"
  show "i = j"
  proof (rule bit_eqI)
    fix q
    show "bit i q = bit j q"
    proof (cases "q < N")
      case True then show ?thesis using a by simp
    next
      case False
      then have "(2::nat) ^ N \<le> 2 ^ q" by simp
      then have "i < 2 ^ q" "j < 2 ^ q" using assms by linarith+
      then show ?thesis by (simp add: not_bit_small)
    qed
  qed
qed simp

lemma flip_bit_less:
  assumes "(j::nat) < 2 ^ N" "t < N"
  shows "flip_bit t j < 2 ^ N"
proof -
  have "take_bit N (flip_bit t j) = flip_bit t j"
  proof (rule bit_eqI)
    fix q
    have "\<not> q < N \<Longrightarrow> \<not> bit j q"
    proof -
      assume "\<not> q < N"
      then have "(2::nat) ^ N \<le> 2 ^ q" by simp
      then have "j < 2 ^ q" using assms by linarith
      then show ?thesis by (simp add: not_bit_small)
    qed
    then show "bit (take_bit N (flip_bit t j)) q = bit (flip_bit t j) q"
      using assms(2) by (auto simp: bit_take_bit_iff bit_flip_bit_iff)
  qed
  then show ?thesis by (metis take_bit_nat_less_exp)
qed

lemma cx_perm_less: "j < 2 ^ N \<Longrightarrow> t < N \<Longrightarrow> cx_perm c t j < 2 ^ N"
  by (simp add: cx_perm_def flip_bit_less)

lemma cx_perm_invol: "c \<noteq> t \<Longrightarrow> cx_perm c t (cx_perm c t j) = j"
  by (auto simp: cx_perm_def bit_flip_bit_iff intro!: bit_eqI)

lemma K0_cond:
  assumes "(i::nat) < 2 ^ N" "j < 2 ^ N" "c < N"
  shows "(\<forall>q<N. if q = c then \<not> bit i q \<and> \<not> bit j q else bit i q = bit j q)
         \<longleftrightarrow> (i = j \<and> \<not> bit j c)"
  unfolding bits_eq[OF assms(1,2)] using assms(3) by auto

lemma K1_cond:
  assumes "(i::nat) < 2 ^ N" "j < 2 ^ N" "c < N" "t < N" "c \<noteq> t"
  shows "(\<forall>q<N. if q = t then bit i q \<noteq> bit j q else if q = c then bit i q \<and> bit j q
                  else bit i q = bit j q)
         \<longleftrightarrow> (bit j c \<and> i = flip_bit t j)"
  unfolding bits_eq[OF assms(1) flip_bit_less[OF assms(2,4)]] using assms(3,4,5)
  by (auto simp: bit_flip_bit_iff)

lemma mat_gates: "mat 2 2 I_gate" "mat 2 2 X_gate" "mat 2 2 P0_mat" "mat 2 2 P1_mat"
  "mat 2 2 H_gate" "mat 2 2 Z_gate"
  by (simp_all add: mat_def I_gate_def X_gate_def P0_mat_def P1_mat_def H_gate_eval Z_gate_def)

lemma gate_entries:
  "I_gate ! bitn i q ! bitn j q = (if bit i q = bit j q then 1 else 0)"
  "X_gate ! bitn i q ! bitn j q = (if bit i q \<noteq> bit j q then 1 else 0)"
  "P0_mat ! bitn i q ! bitn j q = (if \<not> bit i q \<and> \<not> bit j q then 1 else 0)"
  "P1_mat ! bitn i q ! bitn j q = (if bit i q \<and> bit j q then 1 else 0)"
  by (simp_all add: bitn_bit I_gate_def X_gate_def P0_mat_def P1_mat_def)

lemma rev_index_eq: "q < N \<Longrightarrow> c < N \<Longrightarrow> (N - 1 - q = N - 1 - c) = (q = (c::nat))"
  by auto

lemma K0_entry:
  assumes "i < 2 ^ N" "j < 2 ^ N" "c < N"
  shows "kronecker_product ((replicate N I_gate)[N - 1 - c := P0_mat]) ! i ! j
         = (if i = j \<and> \<not> bit j c then 1 else 0)"
proof -
  let ?Z = "(replicate N I_gate)[N - 1 - c := P0_mat]"
  have len: "length ?Z = N" by simp
  have m: "\<And>M. M \<in> set ?Z \<Longrightarrow> mat 2 2 M"
    using mat_gates by (auto dest!: set_update_subset_insert[THEN subsetD])
  have "kronecker_product ?Z ! i ! j = (\<Prod>q<N. ?Z ! (N - 1 - q) ! bitn i q ! bitn j q)"
    using kp_entry[of ?Z i j] m assms by (simp only: len) 
  also have "\<dots> = (\<Prod>q<N. if (if q = c then \<not> bit i q \<and> \<not> bit j q else bit i q = bit j q)
                            then 1 else 0)"
    using assms(3)
    by (intro prod.cong refl) (auto simp: nth_list_update rev_index_eq gate_entries)
  also have "\<dots> = (if \<forall>q<N. (if q = c then \<not> bit i q \<and> \<not> bit j q else bit i q = bit j q)
                   then 1 else 0)"
    by (rule prod_indicator)
  finally show ?thesis unfolding K0_cond[OF assms] .
qed

lemma K1_entry:
  assumes "i < 2 ^ N" "j < 2 ^ N" "c < N" "t < N" "c \<noteq> t"
  shows "kronecker_product ((replicate N I_gate)[N - 1 - c := P1_mat, N - 1 - t := X_gate]) ! i ! j
         = (if bit j c \<and> i = flip_bit t j then 1 else 0)"
proof -
  let ?Z = "(replicate N I_gate)[N - 1 - c := P1_mat, N - 1 - t := X_gate]"
  have len: "length ?Z = N" by simp
  have m: "\<And>M. M \<in> set ?Z \<Longrightarrow> mat 2 2 M"
    using mat_gates by (auto dest!: set_update_subset_insert[THEN subsetD])
  have "kronecker_product ?Z ! i ! j = (\<Prod>q<N. ?Z ! (N - 1 - q) ! bitn i q ! bitn j q)"
    using kp_entry[of ?Z i j] m assms by (simp only: len) 
  also have "\<dots> = (\<Prod>q<N. if (if q = t then bit i q \<noteq> bit j q
                              else if q = c then bit i q \<and> bit j q else bit i q = bit j q)
                            then 1 else 0)"
    using assms(3,4,5)
    by (intro prod.cong refl) (auto simp: nth_list_update rev_index_eq gate_entries)
  also have "\<dots> = (if \<forall>q<N. (if q = t then bit i q \<noteq> bit j q
                              else if q = c then bit i q \<and> bit j q else bit i q = bit j q)
                   then 1 else 0)"
    by (rule prod_indicator)
  finally show ?thesis unfolding K1_cond[OF assms] .
qed

lemma madd_nth:
  assumes "mat r c A" "mat r c B" "i < r" "j < c"
  shows "madd A B ! i ! j = A ! i ! j + B ! i ! j"
  using assms by (simp add: madd_def matD)

lemma madd_mat:
  assumes "mat r c A" "mat r c B"
  shows "mat r c (madd A B)"
  using assms by (intro matI) (auto simp: madd_def matD)

lemma kp_mat_len:
  assumes "\<And>M. M \<in> set Z \<Longrightarrow> mat 2 2 M" "length Z = N"
  shows "mat (2 ^ N) (2 ^ N) (kronecker_product Z)"
  using kp_mat[of Z] assms by simp

lemma K0_mat: "mat (2 ^ N) (2 ^ N) (kronecker_product ((replicate N I_gate)[a := P0_mat]))"
  using mat_gates by (intro kp_mat_len) (auto dest!: set_update_subset_insert[THEN subsetD])

lemma K1_mat:
  "mat (2 ^ N) (2 ^ N) (kronecker_product ((replicate N I_gate)[a := P1_mat, b := X_gate]))"
  using mat_gates by (intro kp_mat_len) (auto dest!: set_update_subset_insert[THEN subsetD])

lemma cx_matrix_mat: "mat (2 ^ N) (2 ^ N) (cx_matrix N c t)"
  unfolding cx_matrix_def by (intro madd_mat K0_mat K1_mat)

lemma cx_matrix_entry:
  assumes "i < 2 ^ N" "j < 2 ^ N" "c < N" "t < N" "c \<noteq> t"
  shows "cx_matrix N c t ! i ! j = (if i = cx_perm c t j then 1 else 0)"
  unfolding cx_matrix_def madd_nth[OF K0_mat K1_mat assms(1,2)]
    K0_entry[OF assms(1,2,3)] K1_entry[OF assms]
  by (auto simp: cx_perm_def)

lemma perm_unitary:
  fixes M :: "real mat"
  assumes m: "mat m m M"
    and e: "\<And>i j. i < m \<Longrightarrow> j < m \<Longrightarrow> M ! i ! j = (if i = f j then 1 else 0)"
    and r: "\<And>j. j < m \<Longrightarrow> f j < m"
    and inj: "\<And>i j. i < m \<Longrightarrow> j < m \<Longrightarrow> f i = f j \<Longrightarrow> i = j"
  shows "unitary_on (\<lambda>x. x) m M"
  unfolding unitary_on_def
proof (intro conjI allI impI)
  show "mat m m M" by (rule m)
  fix i j assume i: "i < m" and j: "j < m"
  have "(\<Sum>l<m. M ! l ! i * M ! l ! j) = (\<Sum>l<m. if l = f i then (if f i = f j then 1 else 0) else 0)"
    using i j by (intro sum.cong refl) (auto simp: e)
  also have "\<dots> = (if f i = f j then 1 else 0)"
    using r[OF i] by (simp add: sum.delta)
  also have "\<dots> = (if i = j then 1 else 0)"
    using inj[OF i j] by auto
  finally show "(\<Sum>l<m. M ! l ! i * M ! l ! j) = (if i = j then 1 else 0)" .
qed

lemma cx_matrix_unitary:
  assumes "c < N" "t < N" "c \<noteq> t"
  shows "unitary_on (\<lambda>x. x) (2 ^ N) (cx_matrix N c t)"
proof (rule perm_unitary[where f = "cx_perm c t"])
  show "mat (2 ^ N) (2 ^ N) (cx_matrix N c t)" by (rule cx_matrix_mat)
  show "\<And>i j. i < 2 ^ N \<Longrightarrow> j < 2 ^ N \<Longrightarrow>
      cx_matrix N c t ! i ! j = (if i = cx_perm c t j then 1 else 0)"
    using assms by (simp add: cx_matrix_entry)
  show "\<And>j. j < 2 ^ N \<Longrightarrow> cx_perm c t j < 2 ^ N"
    using assms by (simp add: cx_perm_less)
  show "\<And>i j. i < 2 ^ N \<Longrightarrow> j < 2 ^ N \<Longrightarrow> cx_perm c t i = cx_perm c t j \<Longrightarrow> i = j"
    using assms(3) by (metis cx_perm_invol)
qed

lemma unit_column_mat: "mat m (Suc 0) (unit_column m k)"
  by (simp add: mat_def unit_column_def list_all_iff)

lemma unit_column_nth: "i < m \<Longrightarrow> unit_column m k ! i ! 0 = (if i = k then 1 else 0)"
  by (simp add: unit_column_def)

lemma cx_matrix_unit:
  assumes "c < N" "t < N" "c \<noteq> t" "d < 2 ^ N"
  shows "mm (cx_matrix N c t) (unit_column (2 ^ N) d) = unit_column (2 ^ N) (cx_perm c t d)"
proof (rule mat_eqI[where r = "2 ^ N" and c = "Suc 0"])
  show "mat (2 ^ N) (Suc 0) (mm (cx_matrix N c t) (unit_column (2 ^ N) d))"
    by (intro mm_mat[where k = "2 ^ N"] cx_matrix_mat unit_column_mat) simp
  show "mat (2 ^ N) (Suc 0) (unit_column (2 ^ N) (cx_perm c t d))"
    by (rule unit_column_mat)
  fix i j :: nat assume i: "i < 2 ^ N" and j: "j < Suc 0"
  have j0: "j = 0" using j by simp
  have "mm (cx_matrix N c t) (unit_column (2 ^ N) d) ! i ! 0
        = (\<Sum>l<2 ^ N. cx_matrix N c t ! i ! l * unit_column (2 ^ N) d ! l ! 0)"
    using i by (intro mm_nth[where r = "2 ^ N" and c = "Suc 0"] cx_matrix_mat unit_column_mat) simp_all
  also have "\<dots> = (\<Sum>l<2 ^ N. if l = d then cx_matrix N c t ! i ! d else 0)"
    by (intro sum.cong refl) (simp add: unit_column_nth)
  also have "\<dots> = cx_matrix N c t ! i ! d"
    using assms(4) by (simp add: sum.delta)
  also have "\<dots> = (if i = cx_perm c t d then 1 else 0)"
    using assms i by (simp add: cx_matrix_entry)
  finally show "mm (cx_matrix N c t) (unit_column (2 ^ N) d) ! i ! j
      = unit_column (2 ^ N) (cx_perm c t d) ! i ! j"
    using i by (simp add: j0 unit_column_nth)
qed

lemma identity_mat_mat: "mat m m (identity_mat m)"
  by (simp add: mat_def identity_mat_def list_all_iff)

lemma kp_identity: "kronecker_product (replicate N I_gate) = identity_mat (2 ^ N)"
proof (rule mat_eqI[where r = "2 ^ N" and c = "2 ^ N"])
  show "mat (2 ^ N) (2 ^ N) (kronecker_product (replicate N I_gate))"
    using mat_gates by (intro kp_mat_len) auto
  show "mat (2 ^ N) (2 ^ N) (identity_mat (2 ^ N) :: real mat)" by (rule identity_mat_mat)
  fix i j :: nat assume i: "i < 2 ^ N" and j: "j < 2 ^ N"
  have "kronecker_product (replicate N I_gate) ! i ! j
        = (\<Prod>q<N. replicate N I_gate ! (N - 1 - q) ! bitn i q ! bitn j q)"
    using kp_entry[of "replicate N I_gate" i j] mat_gates i j by simp
  also have "\<dots> = (\<Prod>q<N. if bit i q = bit j q then 1 else 0)"
    by (intro prod.cong refl) (simp add: gate_entries)
  also have "\<dots> = (if \<forall>q<N. bit i q = bit j q then 1 else 0)"
    by (rule prod_indicator)
  also have "\<dots> = (if i = j then 1 else 0)"
    using bits_eq[OF i j] by simp
  finally show "kronecker_product (replicate N I_gate) ! i ! j
      = (identity_mat (2 ^ N) :: real mat) ! i ! j"
    using i j by (simp add: identity_mat_def)
qed

lemma bits_value_fold_less:
  "foldl (\<lambda>a b. 2 * a + (if b = CHR ''1'' then 1 else 0)) (k::nat) bs < (k + 1) * 2 ^ length bs"
proof (induction bs arbitrary: k)
  case Nil
  show ?case by simp
next
  case (Cons b bs)
  have "foldl (\<lambda>a b. 2 * a + (if b = CHR ''1'' then 1 else 0)) (2 * k + (if b = CHR ''1'' then 1 else 0)) bs
        < (2 * k + (if b = CHR ''1'' then 1 else 0) + 1) * 2 ^ length bs"
    by (rule Cons.IH)
  also have "\<dots> \<le> (2 * k + 2) * 2 ^ length bs"
    by (intro mult_right_mono) auto
  also have "\<dots> = (k + 1) * 2 ^ length (b # bs)" by simp
  finally show ?case by simp
qed

lemma bits_value_less: "bits_value bs < 2 ^ length bs"
  using bits_value_fold_less[of 0 bs] by (simp add: bits_value_def)

lemma CX_cx_matrix:
  assumes "0 \<le> control" "control < sim_n self" "0 \<le> target" "target < sim_n self"
    "control \<noteq> target"
  shows "CX self control target = (Inr (cx_matrix (nat (sim_n self)) (nat control) (nat target)), self)"
  using CX_unfold[OF assms] by (simp add: cx_matrix_def)

lemma matmul_cx_unit:
  assumes "c < N" "t < N" "c \<noteq> t" "d < 2 ^ N"
  shows "matmul (cx_matrix N c t) (unit_column (2 ^ N) d) = Inr (unit_column (2 ^ N) (cx_perm c t d))"
proof -
  have "matmul (cx_matrix N c t) (unit_column (2 ^ N) d)
        = Inr (mm (cx_matrix N c t) (unit_column (2 ^ N) d))"
    by (intro matmul_ok[where r = "2 ^ N" and k = "2 ^ N" and c = "Suc 0"] cx_matrix_mat unit_column_mat) simp
  then show ?thesis using cx_matrix_unit[OF assms] by simp
qed

text \<open>
  C3. For in-bounds \<open>control \<noteq> target\<close> (so \<open>n \<ge> 2\<close>) \<^verbatim>\<open>CX\<close> returns an
  operator that maps the basis state \<open>|d\<rangle>\<close>, for every \<open>d < 2^n\<close>, to itself when
  binary digit \<open>control\<close> of \<open>d\<close> is 0, and to the basis state whose index differs
  from \<open>d\<close> in binary digit \<open>target\<close> only when that digit is 1. Qubit \<open>q\<close> is
  binary digit \<open>q\<close> of the index, the least significant digit being qubit 0: the
  little-endian numbering of the method. For \<open>control = target\<close> below \<open>n\<close> it
  returns the identity of dimension \<open>2^n\<close>, for \<open>n = 1\<close> the two by two identity.
  The basis state \<open>|d\<rangle>\<close> is the column \<^verbatim>\<open>initialize_state\<close> builds from a string of
  \<open>n\<close> binary digits that denotes \<open>d\<close>.
\<close>

theorem CX_is_controlled_X:
  "(0 \<le> control \<and> control < sim_n self \<and> 0 \<le> target \<and> target < sim_n self
      \<and> control \<noteq> target \<and> d < 2 ^ nat (sim_n self) \<longrightarrow>
      (\<exists>M. CX self control target = (Inr M, self)
         \<and> matmul M (unit_column (2 ^ nat (sim_n self)) d)
           = Inr (unit_column (2 ^ nat (sim_n self))
                    (if bit d (nat control) then flip_bit (nat target) d else d))))
   \<and> (control < sim_n self \<longrightarrow>
        CX self control control = (Inr (identity_mat (2 ^ nat (sim_n self))), self))
   \<and> (list_all is_bit bs \<and> int (length bs) = sim_n self \<longrightarrow>
        initialize_state self (PyStr bs) False
          = (Inr (unit_column (2 ^ nat (sim_n self)) (bits_value bs)), self)
        \<and> bits_value bs < 2 ^ nat (sim_n self))"
proof (intro conjI impI)
  assume a: "0 \<le> control \<and> control < sim_n self \<and> 0 \<le> target \<and> target < sim_n self
      \<and> control \<noteq> target \<and> d < 2 ^ nat (sim_n self)"
  then have c: "nat control < nat (sim_n self)" "nat target < nat (sim_n self)"
    "nat control \<noteq> nat target" by auto
  show "\<exists>M. CX self control target = (Inr M, self)
         \<and> matmul M (unit_column (2 ^ nat (sim_n self)) d)
           = Inr (unit_column (2 ^ nat (sim_n self))
                    (if bit d (nat control) then flip_bit (nat target) d else d))"
    using a CX_cx_matrix[of control self target] matmul_cx_unit[OF c, of d]
    by (auto simp: cx_perm_def)
next
  assume "control < sim_n self"
  then show "CX self control control = (Inr (identity_mat (2 ^ nat (sim_n self))), self)"
    by (simp add: CX_same kp_identity)
next
  assume a: "list_all is_bit bs \<and> int (length bs) = sim_n self"
  then have l: "nat (sim_n self) = length bs" by auto
  show "initialize_state self (PyStr bs) False
          = (Inr (unit_column (2 ^ nat (sim_n self)) (bits_value bs)), self)"
    using a by (simp add: initialize_state_unit l del: initialize_state.simps)
  show "bits_value bs < 2 ^ nat (sim_n self)"
    by (simp add: l bits_value_less)
qed

theorem CX_is_controlled_X_witness:
  "(\<exists>M. CX (sim0 GateSVSimulator 2) 1 0 = (Inr M, sim0 GateSVSimulator 2)
         \<and> matmul M (unit_column 4 3) = Inr (unit_column 4 2))
   \<and> CX (sim0 GateSVSimulator 2) 1 1 = (Inr (identity_mat 4), sim0 GateSVSimulator 2)
   \<and> initialize_state (sim0 GateSVSimulator 2) (PyStr ''11'') False
          = (Inr (unit_column 4 3), sim0 GateSVSimulator 2)"
proof -
  have n: "sim_n (sim0 GateSVSimulator 2) = 2" by (simp add: sim0_def)
  have b: "bits_value ''11'' = 3" by (simp add: bits_value_def)
  have l: "list_all is_bit ''11''" by (simp add: is_bit_def)
  have f: "(if bit (3::nat) (nat 1) then flip_bit (nat 0) 3 else 3) = (2::nat)"
    by (simp add: bit_iff_odd flip_bit_eq_xor)
  have p: "(2::nat) ^ nat 2 = 4" by simp
  show ?thesis
    using CX_is_controlled_X[of 1 "sim0 GateSVSimulator 2" 0 3 "''11''", unfolded n f b p] l
    by (simp del: initialize_state.simps)
qed


section \<open>Expectation values\<close>

lemma sum_less_2: "(\<Sum>l<2. f l) = f 0 + f (Suc 0)" for f :: "nat \<Rightarrow> 'a::comm_monoid_add"
  by (simp add: numeral_2_eq_2)

lemma all_less_2: "(\<forall>i<2. P i) \<longleftrightarrow> P 0 \<and> P (Suc 0)"
  by (auto simp: numeral_2_eq_2 less_Suc_eq)



lemma unitary_gates_real:
  "unitary_on (\<lambda>x. x) 2 X_gate" "unitary_on (\<lambda>x. x) 2 H_gate" "unitary_on (\<lambda>x. x) 2 I_gate"
  by (simp_all add: unitary_on_def all_less_2 sum_less_2 mat_def X_gate_def H_gate_eval
        I_gate_def field_simps)
















end
